theory Spec2Isabelle
  imports Complex_Main
begin

section \<open>Core types (src/types/index.ts)\<close>

text \<open>
  An action is the tagged union the system prompt of the AI client prescribes: one
  variant per \<open>ActionType\<close>, carrying the payload fields the service reads
  (\<open>payload.url\<close>, \<open>payload.selector\<close>, \<open>payload.text\<close>, \<open>payload.append\<close>,
  \<open>payload?.reason\<close>). JavaScript strings are modelled as \<open>string\<close>; one element
  stands for one UTF-16 code unit, which is what \<open>length\<close> and \<open>slice\<close> count.
\<close>

datatype AIAction =
    Navigate string
  | Click string
  | Type string string
  | Submit string
  | Scroll string int
  | Hover string
  | Store string bool
  | Print string
  | Complete
  | Failed "string option"

datatype PageElement =
  PageElement (etype: string) (etext: "string option") (attributes: "(string \<times> string) list")
    (isVisible: bool) (path: string) (children: "PageElement list")

record PageState =
  url :: string
  title :: string
  elements :: "PageElement list"
  timestamp :: nat

record StoredData =
  sd_text :: string
  sd_timestamp :: nat

record AIResponse =
  action :: "AIAction option"
  reasoning :: string
  completed :: bool
  failed :: bool
  storedData :: "StoredData option"

section \<open>The response parser (src/services/ai/response-parser.ts)\<close>

text \<open>
  The value \<open>JSON.parse\<close> returns. An object is the list of its properties (each key
  once); a number is the real number the double denotes.
\<close>

datatype json =
    JNull
  | JBool bool
  | JNum real
  | JStr string
  | JArr "json list"
  | JObj "(string \<times> json) list"

text \<open>Property access \<open>v.k\<close> for the keys the parser reads; \<open>None\<close> is \<open>undefined\<close>.\<close>

fun getProp :: "json \<Rightarrow> string \<Rightarrow> json option" where
  "getProp (JObj kvs) k = map_of kvs k"
| "getProp _ k = None"

text \<open>JavaScript truthiness of a possibly undefined value.\<close>

fun truthy :: "json option \<Rightarrow> bool" where
  "truthy None = False"
| "truthy (Some JNull) = False"
| "truthy (Some (JBool b)) = b"
| "truthy (Some (JNum n)) = (n \<noteq> 0)"
| "truthy (Some (JStr s)) = (s \<noteq> [])"
| "truthy (Some (JArr _)) = True"
| "truthy (Some (JObj _)) = True"

text \<open>
  \<open>rawResponse.match(/\{[\s\S]*\}/)\<close>: the text from the first opening brace to the
  last closing brace after it, if there is one.
\<close>

definition jsonMatch :: "string \<Rightarrow> string option" where
  "jsonMatch rawResponse =
     (let rest = dropWhile (\<lambda>c. c \<noteq> CHR ''{'') rawResponse;
          body = rev (dropWhile (\<lambda>c. c \<noteq> CHR ''}'') (rev rest))
      in if body = [] then None else Some body)"

text \<open>
  What the parser returns: \<open>action\<close> is the parsed \<open>action\<close> value as it stands and
  \<open>reasoning\<close> is \<open>parsed.reasoning || ''\<close>.
\<close>

record ParsedResponse =
  p_action :: json
  p_reasoning :: json
  p_completed :: bool
  p_failed :: bool

text \<open>Lines 12 to 21 of \<open>parse\<close>, on the value \<open>JSON.parse\<close> returned.\<close>

definition parseValue :: "json \<Rightarrow> string + ParsedResponse" where
  "parseValue parsed =
     (case getProp parsed ''action'' of
        None \<Rightarrow> Inl ''Invalid response format: missing action or action type''
      | Some a \<Rightarrow>
          if \<not> truthy (Some a) \<or> \<not> truthy (getProp a ''type'')
          then Inl ''Invalid response format: missing action or action type''
          else Inr \<lparr> p_action = a,
                     p_reasoning = (if truthy (getProp parsed ''reasoning'')
                                    then the (getProp parsed ''reasoning'') else JStr []),
                     p_completed = (getProp a ''type'' = Some (JStr ''COMPLETE'')),
                     p_failed = (getProp a ''type'' = Some (JStr ''FAILED'')) \<rparr>)"

text \<open>
  \<open>parse\<close>; \<open>JSON.parse\<close> is a parameter (\<open>None\<close> when it throws). Every error inside the
  \<open>try\<close> is replaced by \<open>Invalid AI response format\<close>.
\<close>

definition parse :: "(string \<Rightarrow> json option) \<Rightarrow> string \<Rightarrow> string + ParsedResponse" where
  "parse JSON_parse rawResponse =
     (case jsonMatch rawResponse of
        None \<Rightarrow> Inl ''Invalid AI response format''
      | Some m \<Rightarrow>
          (case JSON_parse m of
             None \<Rightarrow> Inl ''Invalid AI response format''
           | Some parsed \<Rightarrow>
               (case parseValue parsed of
                  Inl _ \<Rightarrow> Inl ''Invalid AI response format''
                | Inr r \<Rightarrow> Inr r)))"

section \<open>The AI client (src/services/ai-client.ts and its later revision)\<close>

record HistoryEntry =
  h_action :: "AIAction option"
  h_reasoning :: string
  h_timestamp :: string
  h_success :: bool

record AIClient =
  actionHistory :: "HistoryEntry list"
  currentStoredData :: string

definition MAX_STORED_LENGTH :: nat where
  "MAX_STORED_LENGTH = 2000"

definition MAX_PRINT_LENGTH :: nat where
  "MAX_PRINT_LENGTH = 2000"

definition newAIClient :: AIClient where
  "newAIClient = \<lparr> actionHistory = [], currentStoredData = [] \<rparr>"

text \<open>\<open>addToHistory\<close>: push, then \<open>shift\<close> when more than 10 entries are held.\<close>

definition addToHistory :: "AIResponse \<Rightarrow> bool \<Rightarrow> string \<Rightarrow> AIClient \<Rightarrow> AIClient" where
  "addToHistory response success now c =
     (let pushed = actionHistory c @
            [\<lparr> h_action = action response, h_reasoning = reasoning response,
               h_timestamp = now, h_success = success \<rparr>]
      in c\<lparr> actionHistory := (if length pushed > 10 then tl pushed else pushed) \<rparr>)"

definition validateStoredData :: "string \<Rightarrow> string" where
  "validateStoredData text =
     (if length text > MAX_STORED_LENGTH then take MAX_STORED_LENGTH text else text)"

definition validatePrintData :: "string \<Rightarrow> string" where
  "validatePrintData text =
     (if length text > MAX_PRINT_LENGTH then take MAX_PRINT_LENGTH text else text)"

text \<open>
  The \<open>catch\<close> block of \<open>getNextAction\<close>: the last history entry, if any, is marked as
  failed before the error is thrown again.
\<close>

definition markLastFailed :: "AIClient \<Rightarrow> AIClient" where
  "markLastFailed c =
     (if length (actionHistory c) > 0
      then c\<lparr> actionHistory :=
             (actionHistory c)[length (actionHistory c) - 1 :=
                (actionHistory c ! (length (actionHistory c) - 1))\<lparr> h_success := False \<rparr>] \<rparr>
      else c)"

text \<open>
  Lines 136 to 153 of the later \<open>getNextAction\<close>: the STORE, PRINT, COMPLETE and FAILED
  handling of a parsed response. \<open>nowMs\<close> is \<open>Date.now()\<close>.
\<close>

definition handleStoreAndPrint :: "nat \<Rightarrow> AIResponse \<Rightarrow> AIClient \<Rightarrow> AIResponse \<times> AIClient" where
  "handleStoreAndPrint nowMs parsedResponse c =
     (case action parsedResponse of
        Some (Store text app) \<Rightarrow>
          (let newText = validateStoredData text;
               c' = (if app \<and> currentStoredData c \<noteq> []
                     then c\<lparr> currentStoredData := currentStoredData c @ [CHR 0x0A] @ newText \<rparr>
                     else c\<lparr> currentStoredData := newText \<rparr>)
           in (parsedResponse\<lparr> storedData :=
                 Some \<lparr> sd_text = currentStoredData c', sd_timestamp = nowMs \<rparr> \<rparr>, c'))
      | Some (Print text) \<Rightarrow>
          (parsedResponse\<lparr> action := Some (Print (validatePrintData text)) \<rparr>, c)
      | Some Complete \<Rightarrow> (parsedResponse, c\<lparr> currentStoredData := [] \<rparr>)
      | Some (Failed _) \<Rightarrow> (parsedResponse, c\<lparr> currentStoredData := [] \<rparr>)
      | _ \<Rightarrow> (parsedResponse, c))"

text \<open>
  \<open>getNextAction\<close> of the later revision. \<open>provided\<close> is what the provider and the parser
  produced for this call: \<open>Inl\<close> an error thrown by \<open>getProvider\<close>, \<open>generateCompletion\<close>
  or \<open>parse\<close>, \<open>Inr\<close> the parsed response. A response without an action makes
  \<open>parsedResponse.action.type\<close> throw a TypeError, which the same \<open>catch\<close> handles.
\<close>

definition getNextAction ::
    "string + AIResponse \<Rightarrow> nat \<Rightarrow> string \<Rightarrow> AIClient \<Rightarrow> (string + AIResponse) \<times> AIClient" where
  "getNextAction provided nowMs now c =
     (case provided of
        Inl e \<Rightarrow> (Inl e, markLastFailed c)
      | Inr parsedResponse \<Rightarrow>
          (case action parsedResponse of
             None \<Rightarrow> (Inl ''TypeError'', markLastFailed c)
           | Some _ \<Rightarrow>
               (let (r, c') = handleStoreAndPrint nowMs parsedResponse c
                in (Inr r, addToHistory r True now c'))))"

text \<open>
  \<open>getNextAction\<close> of src/services/ai-client.ts, which has no stored data: parse, then
  \<open>addToHistory\<close>.
\<close>

definition getNextAction_basic ::
    "string + AIResponse \<Rightarrow> string \<Rightarrow> AIClient \<Rightarrow> (string + AIResponse) \<times> AIClient" where
  "getNextAction_basic provided now c =
     (case provided of
        Inl e \<Rightarrow> (Inl e, markLastFailed c)
      | Inr parsedResponse \<Rightarrow> (Inr parsedResponse, addToHistory parsedResponse True now c))"

section \<open>The background service (src/background): state and collaborators\<close>

text \<open>
  The repository holds two revisions of the \<open>BackgroundService\<close> class. The later one
  (with \<open>errorCount\<close>, \<open>lastActionResult\<close>, \<open>contentScriptReadyTabs\<close> and the debounced
  \<open>handlePageStateUpdate\<close>) keeps the source's names below; the functions of the earlier
  one (with the retry loop in \<open>executeAction\<close> and the guard in \<open>handleNewTask\<close>) carry
  the suffix \<open>2\<close>. Both are modelled over one record; the earlier revision has no
  \<open>errorCount\<close>, \<open>lastActionResult\<close>, \<open>contentScriptReadyTabs\<close> or timer field, and its
  functions never read or write them.

  \<open>StFailed\<close> is the value \<open>'failed'\<close> that \<open>executeAction\<close> assigns to \<open>status\<close>, although
  the declared type does not list it.
\<close>

datatype Status = StIdle | StRunning | StPaused | StError | StStopped | StFailed

datatype LogType = LInfo | LError | LWarning

text \<open>A log entry is an \<open>ExecutionLog\<close> object, or the bare string that the later
  \<open>executeAction\<close> pushes.\<close>

datatype ExecutionLog = LogObject LogType string string | LogString string

record ExecutionState =
  status :: Status
  currentStep :: nat
  totalSteps :: nat
  currentAction :: "AIAction option"
  error :: "string option"
  logs :: "ExecutionLog list"

record ActionResult =
  success :: bool
  ar_error :: "string option"

text \<open>
  The collaborators are scripted: the \<open>k\<close>-th call of each gets the \<open>k\<close>-th outcome.
  A reply to \<open>chrome.tabs.sendMessage\<close> is a response with \<open>success\<close> set, a response
  without it (with an optional \<open>error\<close>), \<open>chrome.runtime.lastError\<close> (with the message
  \<open>Receiving end does not exist\<close> apart), or no reply before the 5 second timer.
\<close>

datatype reply =
    ReplySuccess
  | ReplyFailure "string option"
  | LastError string
  | ReceivingEndMissing
  | NoReply

text \<open>
  What follows \<open>chrome.tabs.update\<close>: the tab reports \<open>complete\<close> and the steps of the
  \<open>onUpdated\<close> listener end while the navigation timer is still running or cleared; the
  tab reports \<open>complete\<close> in time but the timer runs out while the listener's steps are
  under way (\<open>LoadThenTimer\<close>, which needs a timer that is cleared only after them); the
  update itself fails; or the timer runs out with no \<open>complete\<close> reported.
\<close>

datatype nav_outcome = LoadComplete | LoadThenTimer | UpdateFailed string | NoLoadSignal

record scripts =
  provider :: "nat \<Rightarrow> string + AIResponse"
  tabsSendMessage :: "nat \<Rightarrow> reply"
  executeScript :: "nat \<Rightarrow> string option"
  tabsUpdate :: "nat \<Rightarrow> nav_outcome"
  becomesReady :: "nat \<Rightarrow> bool"
  clock :: "nat \<Rightarrow> string"
  clockMs :: "nat \<Rightarrow> nat"
  numberToString :: "int \<Rightarrow> string"

text \<open>
  The calls the service makes to its collaborators, in order; \<open>Sleep ms\<close> is an awaited
  \<open>setTimeout\<close> and \<open>TimerFired ms\<close> a timeout timer of that length running out.
\<close>

datatype effect =
    AskAI string "PageState option" "ActionResult option"
  | SendMessage nat string
  | ExecuteScript nat
  | TabsUpdate nat string
  | Sleep nat
  | TimerFired nat

text \<open>
  The fields of the class, then the bookkeeping of the model: how many outcomes of each
  script are used up, the \<open>trace\<close> of calls, the actions handed to \<open>performAction\<close>
  (\<open>dispatched\<close>) and the page states the timer callback logged as received.
  \<open>currentTask\<close> holds the task's prompt. \<open>pageStateUpdateTimeout\<close> holds the id that
  \<open>setTimeout\<close> returned (ids start at 1, so every id is truthy). What the browser holds
  for the service is part of the state too: \<open>timers\<close> are the page state timers that are
  set and have neither fired nor been cleared (id, time due, state captured by the
  callback), \<open>timerIds\<close> the number of timers set so far, \<open>callbacksInFlight\<close> the timer
  callbacks that have started and whose \<open>async\<close> chain has not ended, and \<open>navListeners\<close>
  the \<open>onUpdated\<close> listeners that navigations have left registered.
\<close>

record BackgroundService =
  aiClient :: AIClient
  targetTabId :: "nat option"
  pageStateUpdateTimeout :: "nat option"
  executionState :: ExecutionState
  currentTask :: "string option"
  lastPageState :: "PageState option"
  lastActionResult :: ActionResult
  contentScriptReadyTabs :: "nat set"
  errorCount :: nat
  aiCalls :: nat
  sends :: nat
  injections :: nat
  navigations :: nat
  readyWaits :: nat
  clockReads :: nat
  trace :: "effect list"
  dispatched :: "AIAction list"
  received :: "PageState list"
  timers :: "(nat \<times> nat \<times> PageState) list"
  timerIds :: nat
  callbacksInFlight :: nat
  navListeners :: nat

definition MAX_ERRORS :: nat where
  "MAX_ERRORS = 5"

definition initialExecutionState :: ExecutionState where
  "initialExecutionState =
     \<lparr> status = StIdle, currentStep = 0, totalSteps = 0, currentAction = None,
       error = None, logs = [] \<rparr>"

text \<open>The service as its constructor leaves it.\<close>

definition newBackgroundService :: BackgroundService where
  "newBackgroundService =
     \<lparr> aiClient = newAIClient, targetTabId = None, pageStateUpdateTimeout = None,
       executionState = initialExecutionState, currentTask = None, lastPageState = None,
       lastActionResult = \<lparr> success = True, ar_error = None \<rparr>,
       contentScriptReadyTabs = {}, errorCount = 0,
       aiCalls = 0, sends = 0, injections = 0, navigations = 0, readyWaits = 0,
       clockReads = 0, trace = [], dispatched = [], received = [],
       timers = [], timerIds = 0, callbacksInFlight = 0, navListeners = 0 \<rparr>"

text \<open>\<open>!this.targetTabId\<close>: no tab, or the tab id 0.\<close>

definition noTargetTab :: "BackgroundService \<Rightarrow> bool" where
  "noTargetTab w = (case targetTabId w of None \<Rightarrow> True | Some t \<Rightarrow> t = 0)"

definition tabId :: "BackgroundService \<Rightarrow> nat" where
  "tabId w = (case targetTabId w of None \<Rightarrow> 0 | Some t \<Rightarrow> t)"

definition emit :: "effect \<Rightarrow> BackgroundService \<Rightarrow> BackgroundService" where
  "emit e w = w\<lparr> trace := trace w @ [e] \<rparr>"

text \<open>\<open>new Date().toISOString()\<close>: the next reading of the clock.\<close>

definition nowISO :: "scripts \<Rightarrow> BackgroundService \<Rightarrow> string" where
  "nowISO E w = clock E (clockReads w)"

definition tick :: "BackgroundService \<Rightarrow> BackgroundService" where
  "tick w = w\<lparr> clockReads := Suc (clockReads w) \<rparr>"

text \<open>
  \<open>logs: [...this.executionState.logs, {type, message, timestamp: new Date().toISOString()}]\<close>
\<close>

definition appendLog :: "scripts \<Rightarrow> LogType \<Rightarrow> string \<Rightarrow> BackgroundService \<Rightarrow> BackgroundService" where
  "appendLog E ty message w =
     tick (w\<lparr> executionState := (executionState w)
              \<lparr> logs := logs (executionState w) @ [LogObject ty message (nowISO E w)],
                totalSteps := 0 \<rparr> \<rparr>)"

text \<open>
  \<open>updateExecutionState\<close> merges the given fields and sets \<open>totalSteps\<close> to 0; the
  broadcast to the extension's views cannot fail the caller and is left out. \<open>f\<close> is the
  merge of the fields given.
\<close>

definition updateExecutionState ::
    "(ExecutionState \<Rightarrow> ExecutionState) \<Rightarrow> BackgroundService \<Rightarrow> BackgroundService" where
  "updateExecutionState f w = w\<lparr> executionState := (f (executionState w))\<lparr> totalSteps := 0 \<rparr> \<rparr>"

text \<open>
  One call of \<open>this.aiClient.getNextAction\<close>: the next outcome of the provider script goes
  through the client, which reads the clock twice at most (modelled as one reading of
  each clock).
\<close>

definition askAI ::
    "scripts \<Rightarrow> string \<Rightarrow> ActionResult option \<Rightarrow> BackgroundService \<Rightarrow>
     (string + AIResponse) \<times> BackgroundService" where
  "askAI E prompt lastResult w =
     (let (res, c) = getNextAction (provider E (aiCalls w)) (clockMs E (clockReads w))
                       (clock E (clockReads w)) (aiClient w)
      in (res, tick (emit (AskAI prompt (lastPageState w) lastResult)
                  (w\<lparr> aiClient := c, aiCalls := Suc (aiCalls w) \<rparr>))))"

fun typeName :: "AIAction \<Rightarrow> string" where
  "typeName (Navigate _) = ''NAVIGATE''"
| "typeName (Click _) = ''CLICK''"
| "typeName (Type _ _) = ''TYPE''"
| "typeName (Submit _) = ''SUBMIT''"
| "typeName (Scroll _ _) = ''SCROLL''"
| "typeName (Hover _) = ''HOVER''"
| "typeName (Store _ _) = ''STORE''"
| "typeName (Print _) = ''PRINT''"
| "typeName Complete = ''COMPLETE''"
| "typeName (Failed _) = ''FAILED''"

text \<open>\<open>action.payload?.reason || dflt\<close>\<close>

definition reasonOr :: "string option \<Rightarrow> string \<Rightarrow> string" where
  "reasonOr r dflt = (case r of None \<Rightarrow> dflt | Some s \<Rightarrow> if s = [] then dflt else s)"

fun getActionDescription :: "scripts \<Rightarrow> AIAction \<Rightarrow> string" where
  "getActionDescription E (Navigate u) = ''Navigating to '' @ u"
| "getActionDescription E (Click sel) = ''Clicking element \"'' @ sel @ ''\"''"
| "getActionDescription E (Type sel txt) = ''Typing \"'' @ txt @ ''\" into \"'' @ sel @ ''\"''"
| "getActionDescription E (Submit sel) = ''Submitting form \"'' @ sel @ ''\"''"
| "getActionDescription E (Scroll dir amount) =
     ''Scrolling '' @ dir @ '' by '' @ numberToString E amount @ ''px''"
| "getActionDescription E (Hover sel) = ''Hovering over element \"'' @ sel @ ''\"''"
| "getActionDescription E (Store _ app) =
     ''Storing '' @ (if app then ''additional '' else []) @ ''data''"
| "getActionDescription E (Print _) = ''Displaying information to user''"
| "getActionDescription E Complete = ''Task completed successfully''"
| "getActionDescription E (Failed r) = ''Task failed: '' @ reasonOr r ''Unknown reason''"

text \<open>The command an executor-bound action is sent as; the other actions have none.\<close>

fun command :: "AIAction \<Rightarrow> string option" where
  "command (Click _) = Some ''click''"
| "command (Type _ _) = Some ''type''"
| "command (Submit _) = Some ''submit''"
| "command (Scroll _ _) = Some ''scroll''"
| "command (Hover _) = Some ''hover''"
| "command _ = None"

text \<open>How the promise of one \<open>chrome.tabs.sendMessage\<close> settles: the error it rejects with.\<close>

definition replyError :: "reply \<Rightarrow> string option" where
  "replyError r =
     (case r of
        ReplySuccess \<Rightarrow> None
      | ReplyFailure e \<Rightarrow> Some (reasonOr e ''Action failed'')
      | LastError m \<Rightarrow> Some m
      | ReceivingEndMissing \<Rightarrow> Some ''Could not establish connection. Receiving end does not exist.''
      | NoReply \<Rightarrow> Some ''Action timeout'')"

definition noteTimeout :: "reply \<Rightarrow> BackgroundService \<Rightarrow> BackgroundService" where
  "noteTimeout r w = (if r = NoReply then emit (TimerFired 5000) w else w)"

datatype message =
    START_TASK string
  | PAGE_STATE_UPDATE PageState
  | EXECUTION_STOP
  | CONTENT_SCRIPT_READY nat
  | OtherMessage

section \<open>The earlier revision: retry loop and start guard\<close>

text \<open>
  A function that can throw returns the error thrown (\<open>Some\<close>) or \<open>None\<close>, with the
  state as the call left it.
\<close>

definition executeInTab2 ::
    "scripts \<Rightarrow> nat \<Rightarrow> string \<Rightarrow> BackgroundService \<Rightarrow> string option \<times> BackgroundService" where
  "executeInTab2 E t cmd w =
     (replyError (tabsSendMessage E (sends w)),
      noteTimeout (tabsSendMessage E (sends w))
        (emit (SendMessage t cmd) (w\<lparr> sends := Suc (sends w) \<rparr>)))"

definition reinjectContentScript2 ::
    "scripts \<Rightarrow> BackgroundService \<Rightarrow> string option \<times> BackgroundService" where
  "reinjectContentScript2 E w =
     (if noTargetTab w then (None, w)
      else
        (let w1 = emit (ExecuteScript (tabId w)) (w\<lparr> injections := Suc (injections w) \<rparr>)
         in case executeScript E (injections w) of
              Some e \<Rightarrow> (Some e, w1)
            | None \<Rightarrow> executeInTab2 E (tabId w) ''get_page_state'' (emit (Sleep 500) w1)))"

text \<open>
  The steps of \<open>navigate\<close>'s \<open>onUpdated\<close> listener once the target tab reports
  \<open>complete\<close>: inject the content script, wait a second, ask for the page state. The
  error is the one its \<open>catch\<close> rejects the promise with.
\<close>

definition onUpdatedListener2 ::
    "scripts \<Rightarrow> BackgroundService \<Rightarrow> string option \<times> BackgroundService" where
  "onUpdatedListener2 E w =
     (let w2 = emit (ExecuteScript (tabId w)) (w\<lparr> injections := Suc (injections w) \<rparr>)
      in case executeScript E (injections w) of
           Some e \<Rightarrow> (Some e, w2)
         | None \<Rightarrow> executeInTab2 E (tabId w) ''get_page_state'' (emit (Sleep 1000) w2))"

text \<open>
  A listener is removed only when it runs. A navigation that was rejected before the
  tab reported \<open>complete\<close> (by its timer or by a failed update) leaves its listener
  registered, and the next \<open>complete\<close> of the target tab runs every listener still
  registered; the promise of such a listener is settled already, so what it resolves
  or rejects with is lost.
\<close>

fun staleListeners2 :: "nat \<Rightarrow> scripts \<Rightarrow> BackgroundService \<Rightarrow> BackgroundService" where
  "staleListeners2 0 E w = w"
| "staleListeners2 (Suc k) E w = staleListeners2 k E (snd (onUpdatedListener2 E w))"

definition tabComplete2 :: "scripts \<Rightarrow> nat \<Rightarrow> BackgroundService \<Rightarrow> BackgroundService" where
  "tabComplete2 E tab w =
     (if targetTabId w = Some tab
      then (staleListeners2 (navListeners w) E w)\<lparr> navListeners := 0 \<rparr>
      else w)"

text \<open>
  \<open>navigate\<close>: the timer of 10 seconds is cleared only after the listener's steps, so it
  can run out while they are under way; the promise is then rejected with
  \<open>Navigation timeout\<close> and the steps go on (\<open>TimerFired\<close> is put after them in the
  trace).
\<close>

definition navigate2 ::
    "scripts \<Rightarrow> string \<Rightarrow> BackgroundService \<Rightarrow> string option \<times> BackgroundService" where
  "navigate2 E u w =
     (if noTargetTab w then (Some ''No target tab found'', w)
      else
        (let w1 = emit (TabsUpdate (tabId w) u) (w\<lparr> navigations := Suc (navigations w) \<rparr>)
         in case tabsUpdate E (navigations w) of
              UpdateFailed e \<Rightarrow> (Some e, w1\<lparr> navListeners := Suc (navListeners w1) \<rparr>)
            | NoLoadSignal \<Rightarrow>
                (Some ''Navigation timeout'',
                 emit (TimerFired 10000) (w1\<lparr> navListeners := Suc (navListeners w1) \<rparr>))
            | LoadComplete \<Rightarrow> onUpdatedListener2 E (tabComplete2 E (tabId w) w1)
            | LoadThenTimer \<Rightarrow>
                (Some ''Navigation timeout'',
                 emit (TimerFired 10000)
                   (snd (onUpdatedListener2 E (tabComplete2 E (tabId w) w1))))))"

definition completeTask :: "scripts \<Rightarrow> BackgroundService \<Rightarrow> BackgroundService" where
  "completeTask E w =
     appendLog E LInfo ''Task completed successfully''
       (updateExecutionState (\<lambda>s. s\<lparr> status := StIdle \<rparr>) w)"

definition failTask :: "scripts \<Rightarrow> string option \<Rightarrow> BackgroundService \<Rightarrow> BackgroundService" where
  "failTask E r w =
     appendLog E LError (reasonOr r ''Task failed'')
       (updateExecutionState
          (\<lambda>s. s\<lparr> status := StError, error := Some (reasonOr r ''Task failed'') \<rparr>) w)"

text \<open>The \<open>switch\<close> inside the retry loop: one attempt.\<close>

definition attemptOnce2 ::
    "scripts \<Rightarrow> AIAction \<Rightarrow> BackgroundService \<Rightarrow> string option \<times> BackgroundService" where
  "attemptOnce2 E a w =
     (case a of
        Complete \<Rightarrow> (None, completeTask E w)
      | Failed r \<Rightarrow> (None, failTask E r w)
      | _ \<Rightarrow> (case command a of
                 Some cmd \<Rightarrow> executeInTab2 E (tabId w) cmd w
               | None \<Rightarrow> (None, w)))"

definition maxAttempts :: nat where
  "maxAttempts = 3"

text \<open>
  \<open>while (attempts < maxAttempts)\<close>: a failed attempt that is not the last one waits one
  second and re-injects the content script, whose own failure is only logged.
\<close>

function retryLoop2 ::
    "scripts \<Rightarrow> AIAction \<Rightarrow> nat \<Rightarrow> BackgroundService \<Rightarrow> string option \<times> BackgroundService" where
  "retryLoop2 E a attempts w =
     (if attempts < maxAttempts then
        (case attemptOnce2 E a w of
           (None, w1) \<Rightarrow> (None, w1)
         | (Some e, w1) \<Rightarrow>
             if Suc attempts = maxAttempts then (Some e, w1)
             else retryLoop2 E a (Suc attempts)
                    (snd (reinjectContentScript2 E (emit (Sleep 1000) w1))))
      else (None, w))"
  by pat_completeness auto
termination
  by (relation "measure (\<lambda>(E, a, attempts, w). maxAttempts - attempts)") auto

definition executeAction2 ::
    "scripts \<Rightarrow> AIAction \<Rightarrow> BackgroundService \<Rightarrow> string option \<times> BackgroundService" where
  "executeAction2 E a w =
     (if noTargetTab w then (Some ''No target tab found'', w)
      else
        (let w1 = appendLog E LInfo (getActionDescription E a)
                    (updateExecutionState (\<lambda>s. s\<lparr> currentAction := Some a \<rparr>) w)
         in case a of
              Store _ _ \<Rightarrow> (None, w1)
            | Print txt \<Rightarrow> (None, appendLog E LInfo txt w1)
            | Navigate u \<Rightarrow> navigate2 E u w1
            | _ \<Rightarrow> retryLoop2 E a 0 w1))"



definition stopExecution2 :: "scripts \<Rightarrow> BackgroundService \<Rightarrow> BackgroundService" where
  "stopExecution2 E w =
     tick (w\<lparr> currentTask := None,
              executionState :=
                \<lparr> status = StIdle, currentStep = 0, totalSteps = 0, currentAction = None,
                  error = None,
                  logs = logs (executionState w) @
                    [LogObject LInfo ''Task execution stopped by user'' (nowISO E w)] \<rparr>,
              lastPageState := None \<rparr>)"


section \<open>The later revision: error budget, decision loop, debounced page states\<close>

text \<open>
  The loops of this revision have no bound in the source (\<open>sendMessage\<close> sends again
  after each successful re-injection; \<open>executeAction\<close> and \<open>requestNextAction\<close> call each
  other), so their models take fuel and return \<open>None\<close> when it runs out.
\<close>

definition stopExecution :: "BackgroundService \<Rightarrow> BackgroundService" where
  "stopExecution w =
     w\<lparr> executionState := (executionState w)\<lparr> status := StIdle \<rparr>, errorCount := 0 \<rparr>"

definition reinjectContentScript ::
    "scripts \<Rightarrow> BackgroundService \<Rightarrow> string option \<times> BackgroundService" where
  "reinjectContentScript E w =
     (if noTargetTab w then (Some ''No target tab found'', w)
      else (executeScript E (injections w),
            emit (ExecuteScript (tabId w)) (w\<lparr> injections := Suc (injections w) \<rparr>)))"

text \<open>The inner \<open>sendMessage\<close> of \<open>executeInTab\<close>.\<close>

fun sendMessage ::
    "nat \<Rightarrow> scripts \<Rightarrow> nat \<Rightarrow> string \<Rightarrow> BackgroundService \<Rightarrow>
     (string option \<times> BackgroundService) option" where
  "sendMessage 0 E t cmd w = None"
| "sendMessage (Suc n) E t cmd w =
     (let r = tabsSendMessage E (sends w);
          w1 = noteTimeout r (emit (SendMessage t cmd) (w\<lparr> sends := Suc (sends w) \<rparr>))
      in if r = ReceivingEndMissing then
           (case reinjectContentScript E w1 of
              (Some e, w2) \<Rightarrow> Some (Some e, w2)
            | (None, w2) \<Rightarrow> sendMessage n E t cmd w2)
         else Some (replyError r, w1))"

text \<open>
  \<open>executeInTab\<close>: a tab not yet known as ready is waited for; \<open>becomesReady\<close> says whether
  its \<open>CONTENT_SCRIPT_READY\<close> message arrives within the 5 seconds.
\<close>

definition executeInTab ::
    "nat \<Rightarrow> scripts \<Rightarrow> nat \<Rightarrow> string \<Rightarrow> BackgroundService \<Rightarrow>
     (string option \<times> BackgroundService) option" where
  "executeInTab n E t cmd w =
     (if t \<in> contentScriptReadyTabs w then sendMessage n E t cmd w
      else if becomesReady E (readyWaits w)
      then sendMessage n E t cmd
             (w\<lparr> readyWaits := Suc (readyWaits w),
                 contentScriptReadyTabs := insert t (contentScriptReadyTabs w) \<rparr>)
      else Some (Some ''Content script did not become ready in time'',
                 emit (TimerFired 5000) (w\<lparr> readyWaits := Suc (readyWaits w) \<rparr>)))"

text \<open>
  The steps of \<open>navigate\<close>'s \<open>onUpdated\<close> listener once the target tab reports
  \<open>complete\<close> (the listener is removed and the navigation timer cleared first): wait two
  seconds and re-inject the content script.
\<close>

definition onUpdatedListener ::
    "scripts \<Rightarrow> BackgroundService \<Rightarrow> string option \<times> BackgroundService" where
  "onUpdatedListener E w = reinjectContentScript E (emit (Sleep 2000) w)"

text \<open>
  As in the earlier revision, a navigation rejected before the tab reported \<open>complete\<close>
  leaves its listener registered, and the next \<open>complete\<close> of the target tab runs it.
\<close>

fun staleListeners :: "nat \<Rightarrow> scripts \<Rightarrow> BackgroundService \<Rightarrow> BackgroundService" where
  "staleListeners 0 E w = w"
| "staleListeners (Suc k) E w = staleListeners k E (snd (onUpdatedListener E w))"

definition tabComplete :: "scripts \<Rightarrow> nat \<Rightarrow> BackgroundService \<Rightarrow> BackgroundService" where
  "tabComplete E tab w =
     (if targetTabId w = Some tab
      then (staleListeners (navListeners w) E w)\<lparr> navListeners := 0 \<rparr>
      else w)"

text \<open>
  \<open>navigate\<close>: the timer of 15 seconds is cleared as soon as the tab reports
  \<open>complete\<close>, so it cannot run out during the listener's steps.
\<close>

definition navigate ::
    "scripts \<Rightarrow> string \<Rightarrow> BackgroundService \<Rightarrow> string option \<times> BackgroundService" where
  "navigate E u w =
     (if noTargetTab w then (Some ''No target tab found'', w)
      else
        (let w1 = emit (TabsUpdate (tabId w) u) (w\<lparr> navigations := Suc (navigations w) \<rparr>)
         in case tabsUpdate E (navigations w) of
              UpdateFailed e \<Rightarrow> (Some e, w1\<lparr> navListeners := Suc (navListeners w1) \<rparr>)
            | NoLoadSignal \<Rightarrow>
                (Some ''Navigation timeout'',
                 emit (TimerFired 15000) (w1\<lparr> navListeners := Suc (navListeners w1) \<rparr>))
            | LoadComplete \<Rightarrow> onUpdatedListener E (tabComplete E (tabId w) w1)
            | LoadThenTimer \<Rightarrow> onUpdatedListener E (tabComplete E (tabId w) w1)))"

definition performAction ::
    "nat \<Rightarrow> scripts \<Rightarrow> AIAction \<Rightarrow> BackgroundService \<Rightarrow>
     (string option \<times> BackgroundService) option" where
  "performAction n E a w =
     (let w0 = w\<lparr> dispatched := dispatched w @ [a] \<rparr>
      in case a of
           Store _ _ \<Rightarrow> Some (None, w0)
         | Navigate u \<Rightarrow> Some (navigate E u w0)
         | Print txt \<Rightarrow> Some (None, appendLog E LInfo txt w0)
         | Complete \<Rightarrow> Some (None, completeTask E w0)
         | Failed r \<Rightarrow> Some (None, failTask E r w0)
         | _ \<Rightarrow> (case command a of
                    Some cmd \<Rightarrow> executeInTab n E (tabId w0) cmd w0
                  | None \<Rightarrow> Some (None, w0)))"

text \<open>
  The \<open>try\<close>/\<open>catch\<close> of \<open>executeAction\<close> (one dispatch): the action succeeded, it failed
  with an error, or the failure used up the error budget and \<open>executeAction\<close> returns.
\<close>

datatype attempt = Succeeded | FailedWith string | BudgetExhausted

definition attemptAction ::
    "nat \<Rightarrow> scripts \<Rightarrow> AIAction \<Rightarrow> BackgroundService \<Rightarrow> (attempt \<times> BackgroundService) option" where
  "attemptAction n E a w =
     (case performAction n E a
             (w\<lparr> executionState := (executionState w)
                  \<lparr> currentStep := currentStep (executionState w) + 1,
                    logs := logs (executionState w) @
                      [LogString (''Executing action: '' @ typeName a)] \<rparr> \<rparr>) of
        None \<Rightarrow> None
      | Some (None, w1) \<Rightarrow> Some (Succeeded, w1\<lparr> errorCount := 0 \<rparr>)
      | Some (Some e, w1) \<Rightarrow>
          if errorCount w1 + 1 \<ge> MAX_ERRORS
          then Some (BudgetExhausted,
                 stopExecution
                   (w1\<lparr> errorCount := errorCount w1 + 1,
                        executionState := (executionState w1)
                          \<lparr> status := StFailed,
                            logs := logs (executionState w1) @
                              [LogString ''Task failed due to too many errors.''] \<rparr> \<rparr>))
          else Some (FailedWith e, w1\<lparr> errorCount := errorCount w1 + 1 \<rparr>))"

definition resultOf :: "attempt \<Rightarrow> ActionResult" where
  "resultOf r =
     (case r of
        FailedWith e \<Rightarrow> \<lparr> success = False, ar_error = Some e \<rparr>
      | _ \<Rightarrow> \<lparr> success = True, ar_error = None \<rparr>)"

fun requestNextAction :: "nat \<Rightarrow> scripts \<Rightarrow> BackgroundService \<Rightarrow> BackgroundService option"
  and executeAction ::
    "nat \<Rightarrow> scripts \<Rightarrow> AIAction \<Rightarrow> BackgroundService \<Rightarrow>
     (string option \<times> BackgroundService) option" where
  "requestNextAction 0 E w = None"
| "requestNextAction (Suc n) E w =
     (case currentTask w of
        None \<Rightarrow> Some w
      | Some prompt \<Rightarrow>
          (case askAI E prompt (Some (lastActionResult w)) w of
             (Inl e, w1) \<Rightarrow> Some w1
           | (Inr response, w1) \<Rightarrow>
               (case action response of
                  Some a \<Rightarrow>
                    (case executeAction n E a
                            (appendLog E LInfo (''AI Response: '' @ reasoning response)
                               (updateExecutionState (\<lambda>s. s\<lparr> currentAction := Some a \<rparr>) w1)) of
                       None \<Rightarrow> None
                     | Some (_, w2) \<Rightarrow> Some w2)
                | None \<Rightarrow>
                    if completed response
                    then Some ((completeTask E w1)\<lparr> currentTask := None \<rparr>)
                    else Some w1)))"
| "executeAction n E a w =
     (if noTargetTab w then Some (Some ''No target tab found'', w)
      else
        (case attemptAction n E a w of
           None \<Rightarrow> None
         | Some (BudgetExhausted, w1) \<Rightarrow> Some (None, w1)
         | Some (r, w1) \<Rightarrow>
             if status (executionState w1) = StRunning
             then (case requestNextAction n E (w1\<lparr> lastActionResult := resultOf r \<rparr>) of
                     None \<Rightarrow> None
                   | Some w2 \<Rightarrow> Some (None, w2))
             else Some (None, w1\<lparr> lastActionResult := resultOf r \<rparr>)))"

definition handleNewTask ::
    "nat \<Rightarrow> scripts \<Rightarrow> string \<Rightarrow> BackgroundService \<Rightarrow> BackgroundService option" where
  "handleNewTask n E prompt w =
     requestNextAction n E
       ((stopExecution w)
          \<lparr> executionState :=
              \<lparr> status = StRunning, currentStep = 0, totalSteps = 0, currentAction = None,
                error = None, logs = [] \<rparr>,
            currentTask := Some prompt,
            errorCount := 0 \<rparr>)"

text \<open>\<open>clearTimeout(id)\<close>: the timer of that id, if it is still set, is removed.\<close>

definition clearTimeout ::
    "nat \<Rightarrow> (nat \<times> nat \<times> PageState) list \<Rightarrow> (nat \<times> nat \<times> PageState) list" where
  "clearTimeout i ts = filter (\<lambda>(j, due, s). j \<noteq> i) ts"

text \<open>
  \<open>handlePageStateUpdate\<close> at time \<open>now\<close> (in milliseconds): the timer whose id the
  field holds is cleared (when the field holds none, no timer is cleared) and a new
  one is set, due 500 ms later, whose callback captures \<open>state\<close>.
\<close>

definition handlePageStateUpdate ::
    "nat \<Rightarrow> PageState \<Rightarrow> BackgroundService \<Rightarrow> BackgroundService" where
  "handlePageStateUpdate now state w =
     w\<lparr> timers :=
          (case pageStateUpdateTimeout w of
             None \<Rightarrow> timers w
           | Some i \<Rightarrow> clearTimeout i (timers w)) @ [(Suc (timerIds w), now + 500, state)],
        timerIds := Suc (timerIds w),
        pageStateUpdateTimeout := Some (Suc (timerIds w)) \<rparr>"

text \<open>
  The timer's callback, from its start to its first \<open>await\<close>. Its \<open>try\<close> block holds the
  text of \<open>requestNextAction\<close>'s, so with a running task at hand it is
  \<open>requestNextAction\<close>, whose work is done here in one step; the \<open>finally\<close> block, which
  sets the field to \<open>null\<close>, runs when the \<open>async\<close> chain ends, which is a later event
  (\<open>callbackEnds\<close>). Without a running task no \<open>await\<close> is reached and the \<open>finally\<close> block
  runs at once. \<open>received\<close> models the console line \<open>Received page state update\<close>.
\<close>

definition pageStateCallback ::
    "nat \<Rightarrow> scripts \<Rightarrow> PageState \<Rightarrow> BackgroundService \<Rightarrow> BackgroundService option" where
  "pageStateCallback n E state w =
     (let w1 = w\<lparr> lastPageState := Some state, received := received w @ [state] \<rparr>
      in if currentTask w1 \<noteq> None \<and> status (executionState w1) = StRunning
         then (case requestNextAction n E w1 of
                 None \<Rightarrow> None
               | Some w2 \<Rightarrow> Some (w2\<lparr> callbacksInFlight := Suc (callbacksInFlight w2) \<rparr>))
         else Some (w1\<lparr> pageStateUpdateTimeout := None \<rparr>))"

text \<open>
  The \<open>async\<close> chain of a timer callback ends: its \<open>finally\<close> block sets the field to
  \<open>null\<close>, whichever timer's id the field holds by then; no timer is cleared.
\<close>

definition callbackEnds :: "BackgroundService \<Rightarrow> BackgroundService" where
  "callbackEnds w =
     (if callbacksInFlight w = 0 then w
      else w\<lparr> callbacksInFlight := callbacksInFlight w - 1, pageStateUpdateTimeout := None \<rparr>)"

text \<open>
  The timers of the list fire, one after the other: each is taken from the timers set
  and its callback runs.
\<close>

fun fireTimers ::
    "nat \<Rightarrow> scripts \<Rightarrow> (nat \<times> nat \<times> PageState) list \<Rightarrow> BackgroundService \<Rightarrow>
     BackgroundService option" where
  "fireTimers n E [] w = Some w"
| "fireTimers n E ((i, due, state) # ts) w =
     (case pageStateCallback n E state (w\<lparr> timers := clearTimeout i (timers w) \<rparr>) of
        None \<Rightarrow> None
      | Some w1 \<Rightarrow> fireTimers n E ts w1)"

text \<open>
  Time passes up to \<open>t\<close>: the timers that are due by then fire, in the order in which
  they were set.
\<close>

definition advanceTo ::
    "nat \<Rightarrow> scripts \<Rightarrow> nat \<Rightarrow> BackgroundService \<Rightarrow> BackgroundService option" where
  "advanceTo n E t w = fireTimers n E (filter (\<lambda>(i, due, s). due \<le> t) (timers w)) w"

definition onMessage ::
    "nat \<Rightarrow> scripts \<Rightarrow> nat \<Rightarrow> message \<Rightarrow> BackgroundService \<Rightarrow> BackgroundService option" where
  "onMessage n E now m w =
     (case m of
        CONTENT_SCRIPT_READY t \<Rightarrow>
          Some (if t = 0 then w
                else w\<lparr> contentScriptReadyTabs := insert t (contentScriptReadyTabs w) \<rparr>)
      | START_TASK prompt \<Rightarrow> handleNewTask n E prompt w
      | PAGE_STATE_UPDATE state \<Rightarrow> Some (handlePageStateUpdate now state w)
      | EXECUTION_STOP \<Rightarrow> Some (stopExecution w)
      | OtherMessage \<Rightarrow> Some w)"

text \<open>
  What the service reacts to besides its timers: a message received, the end of the
  \<open>async\<close> chain of a timer callback that is in flight, and a tab reporting \<open>complete\<close>
  outside a navigation that waits for it.
\<close>

datatype event = Received message | CallbackEnds | TabComplete nat

definition onEvent ::
    "nat \<Rightarrow> scripts \<Rightarrow> nat \<Rightarrow> event \<Rightarrow> BackgroundService \<Rightarrow> BackgroundService option" where
  "onEvent n E now ev w =
     (case ev of
        Received m \<Rightarrow> onMessage n E now m w
      | CallbackEnds \<Rightarrow> Some (callbackEnds w)
      | TabComplete tab \<Rightarrow> Some (tabComplete E tab w))"

text \<open>
  A run of the service over events with the times at which they occur. The decision
  loop a handler or a timer callback starts is run to its end within that event; of
  the points at which the source suspends, the run has the one between a timer
  callback and its \<open>finally\<close> block.
\<close>

fun run ::
    "nat \<Rightarrow> scripts \<Rightarrow> (nat \<times> event) list \<Rightarrow> BackgroundService \<Rightarrow> BackgroundService option" where
  "run n E [] w = Some w"
| "run n E ((t, ev) # evs) w =
     (case advanceTo n E t w of
        None \<Rightarrow> None
      | Some w1 \<Rightarrow>
          (case onEvent n E t ev w1 of
             None \<Rightarrow> None
           | Some w2 \<Rightarrow> run n E evs w2))"

section \<open>The content script (src/content/index.ts): fingerprint and debounce\<close>









section \<open>Notions used in the statements\<close>

text \<open>A sequence of calls of the client, from any state.\<close>

fun clientCalls ::
    "((string + AIResponse) \<times> nat \<times> string) list \<Rightarrow> AIClient \<Rightarrow> AIClient" where
  "clientCalls [] c = c"
| "clientCalls ((provided, nowMs, now) # calls) c =
     clientCalls calls (snd (getNextAction provided nowMs now c))"

fun clientCalls_basic :: "((string + AIResponse) \<times> string) list \<Rightarrow> AIClient \<Rightarrow> AIClient" where
  "clientCalls_basic [] c = c"
| "clientCalls_basic ((provided, now) # calls) c =
     clientCalls_basic calls (snd (getNextAction_basic provided now c))"

text \<open>What a call added to the trace.\<close>

definition newTrace :: "BackgroundService \<Rightarrow> BackgroundService \<Rightarrow> effect list" where
  "newTrace w w' = drop (length (trace w)) (trace w')"

definition isStartTask :: "event \<Rightarrow> bool" where
  "isStartTask ev = (case ev of Received (START_TASK _) \<Rightarrow> True | _ \<Rightarrow> False)"



text \<open>
  Two relations between a state and a later one, for the proofs: \<open>same\<close> when the step
  counter, the dispatched actions, the received page states, the last page state and
  the page state timers are untouched and the trace has only grown; \<open>tracks\<close> when
  instead of the first two the step counter has advanced by the number of actions
  dispatched in between.
\<close>

definition timerState ::
    "BackgroundService \<Rightarrow>
     nat option \<times> (nat \<times> nat \<times> PageState) list \<times> nat \<times> nat \<times> PageState option" where
  [simp]: "timerState w =
     (pageStateUpdateTimeout w, timers w, timerIds w, callbacksInFlight w, lastPageState w)"

definition same :: "BackgroundService \<Rightarrow> BackgroundService \<Rightarrow> bool" where
  "same w w' \<longleftrightarrow>
     currentStep (executionState w') = currentStep (executionState w) \<and>
     dispatched w' = dispatched w \<and>
     received w' = received w \<and>
     timerState w' = timerState w \<and>
     take (length (trace w)) (trace w') = trace w"

definition tracks :: "BackgroundService \<Rightarrow> BackgroundService \<Rightarrow> bool" where
  "tracks w w' \<longleftrightarrow>
     currentStep (executionState w') + length (dispatched w) =
       currentStep (executionState w) + length (dispatched w') \<and>
     length (dispatched w) \<le> length (dispatched w') \<and>
     received w' = received w \<and>
     timerState w' = timerState w \<and>
     take (length (trace w)) (trace w') = trace w"

section \<open>Scripted collaborators and states for the examples\<close>

definition response :: "AIAction \<Rightarrow> AIResponse" where
  "response a =
     \<lparr> action = Some a, reasoning = ''next'', completed = (a = Complete),
       failed = (case a of Failed _ \<Rightarrow> True | _ \<Rightarrow> False), storedData = None \<rparr>"

text \<open>No provider is configured; every command fails; no page ever loads.\<close>

definition deadScripts :: scripts where
  "deadScripts =
     \<lparr> provider = (\<lambda>k. Inl ''AI provider not configured. Please set up your API key.''),
       tabsSendMessage = (\<lambda>k. ReplyFailure None),
       executeScript = (\<lambda>k. None),
       tabsUpdate = (\<lambda>k. NoLoadSignal),
       becomesReady = (\<lambda>k. False),
       clock = (\<lambda>k. ''2024-01-01T00:00:00.000Z''),
       clockMs = (\<lambda>k. 0),
       numberToString = (\<lambda>i. ''0'') \<rparr>"

text \<open>The provider always asks for the same click; the executor always fails.\<close>

definition failingScripts :: scripts where
  "failingScripts = deadScripts\<lparr> provider := (\<lambda>k. Inr (response (Click ''#go''))) \<rparr>"

text \<open>The executor fails twice and succeeds from the third command on.\<close>

definition flakyScripts :: scripts where
  "flakyScripts =
     deadScripts\<lparr> tabsSendMessage := (\<lambda>k. if k < 2 then ReplyFailure None else ReplySuccess) \<rparr>"

text \<open>
  The content script is not there for the first four commands (each re-injection
  succeeds) and answers the fifth.
\<close>

definition missingScripts :: scripts where
  "missingScripts =
     deadScripts\<lparr> tabsSendMessage := (\<lambda>k. if k < 4 then ReceivingEndMissing else ReplySuccess) \<rparr>"

text \<open>The content script is never there, though every re-injection succeeds.\<close>

definition absentScripts :: scripts where
  "absentScripts = deadScripts\<lparr> tabsSendMessage := (\<lambda>k. ReceivingEndMissing) \<rparr>"

text \<open>The content script is not there and the page does not admit an injection.\<close>

definition blockedScripts :: scripts where
  "blockedScripts =
     absentScripts\<lparr> executeScript := (\<lambda>k. Some ''Cannot access contents of the page'') \<rparr>"

text \<open>The provider asks for two clicks, which succeed, and then completes the task.\<close>

definition workingScripts :: scripts where
  "workingScripts =
     deadScripts\<lparr> provider := (\<lambda>k. Inr (response (if k < 2 then Click ''#go'' else Complete))),
                  tabsSendMessage := (\<lambda>k. ReplySuccess) \<rparr>"

text \<open>A service with a target tab whose content script is ready.\<close>

definition readyService :: BackgroundService where
  "readyService =
     newBackgroundService\<lparr> targetTabId := Some 1, contentScriptReadyTabs := {1} \<rparr>"

text \<open>The same service in the middle of a task.\<close>

definition runningService :: BackgroundService where
  "runningService =
     readyService\<lparr> currentTask := Some ''old task'',
                   executionState := initialExecutionState\<lparr> status := StRunning, currentStep := 2 \<rparr> \<rparr>"

definition pageA :: PageState where
  "pageA = \<lparr> url = ''https://a.example'', title = ''A'', elements = [], timestamp = 0 \<rparr>"


section \<open>The action history of the AI client\<close>

lemma addToHistory_length:
  "length (actionHistory c) \<le> 10 \<Longrightarrow> length (actionHistory (addToHistory r b now c)) \<le> 10"
  by (auto simp: addToHistory_def Let_def)

lemma markLastFailed_length [simp]:
  "length (actionHistory (markLastFailed c)) = length (actionHistory c)"
  by (simp add: markLastFailed_def)

lemma handleStoreAndPrint_history [simp]:
  "actionHistory (snd (handleStoreAndPrint nowMs r c)) = actionHistory c"
  by (simp add: handleStoreAndPrint_def Let_def split: option.splits AIAction.splits)

lemma getNextAction_length:
  "length (actionHistory c) \<le> 10 \<Longrightarrow>
   length (actionHistory (snd (getNextAction provided nowMs now c))) \<le> 10"
  by (auto simp: getNextAction_def addToHistory_length split: sum.splits option.splits prod.splits
        dest: arg_cong[where f="\<lambda>p. actionHistory (snd p)"])

lemma getNextAction_basic_length:
  "length (actionHistory c) \<le> 10 \<Longrightarrow>
   length (actionHistory (snd (getNextAction_basic provided now c))) \<le> 10"
  by (auto simp: getNextAction_basic_def addToHistory_length split: sum.splits)

lemma clientCalls_length:
  "length (actionHistory c) \<le> 10 \<Longrightarrow> length (actionHistory (clientCalls calls c)) \<le> 10"
  by (induction calls c rule: clientCalls.induct) (simp_all add: getNextAction_length)

lemma clientCalls_basic_length:
  "length (actionHistory c) \<le> 10 \<Longrightarrow>
   length (actionHistory (clientCalls_basic calls c)) \<le> 10"
  by (induction calls c rule: clientCalls_basic.induct) (simp_all add: getNextAction_basic_length)

lemma addToHistory_drop:
  "length (actionHistory c) \<le> 10 \<Longrightarrow>
   actionHistory (addToHistory r b now c) =
     drop (length (actionHistory c) + 1 - 10)
       (actionHistory c @ [\<lparr> h_action = action r, h_reasoning = reasoning r,
                               h_timestamp = now, h_success = b \<rparr>])"
  by (cases "actionHistory c") (auto simp: addToHistory_def Let_def drop_Cons')

text \<open>
  C10. In every state the client of either revision reaches from its initial state by
  calls of \<open>getNextAction\<close>, the action history holds at most 10 entries; and adding an
  entry in such a state leaves the most recent 10 of the old entries followed by the new
  one: the new entry is last, and the oldest is dropped exactly when there were 10.
\<close>

theorem history_keeps_last_ten:
  "length (actionHistory (clientCalls calls newAIClient)) \<le> 10 \<and>
   length (actionHistory (clientCalls_basic calls' newAIClient)) \<le> 10 \<and>
   actionHistory (addToHistory r b now (clientCalls calls newAIClient)) =
     drop (length (actionHistory (clientCalls calls newAIClient)) + 1 - 10)
       (actionHistory (clientCalls calls newAIClient) @
          [\<lparr> h_action = action r, h_reasoning = reasoning r, h_timestamp = now,
             h_success = b \<rparr>]) \<and>
   actionHistory (addToHistory r b now (clientCalls_basic calls' newAIClient)) =
     drop (length (actionHistory (clientCalls_basic calls' newAIClient)) + 1 - 10)
       (actionHistory (clientCalls_basic calls' newAIClient) @
          [\<lparr> h_action = action r, h_reasoning = reasoning r, h_timestamp = now,
             h_success = b \<rparr>])"
proof -
  have a: "length (actionHistory (clientCalls calls newAIClient)) \<le> 10"
    by (rule clientCalls_length) (simp add: newAIClient_def)
  have b: "length (actionHistory (clientCalls_basic calls' newAIClient)) \<le> 10"
    by (rule clientCalls_basic_length) (simp add: newAIClient_def)
  show ?thesis
    using a b addToHistory_drop[OF a] addToHistory_drop[OF b] by blast
qed

section \<open>Stored and printed text\<close>

lemma validateStoredData_take: "validateStoredData t = take MAX_STORED_LENGTH t"
  by (simp add: validateStoredData_def)

lemma validatePrintData_take: "validatePrintData t = take MAX_PRINT_LENGTH t"
  by (simp add: validatePrintData_def)

lemma getNextAction_store:
  "action r = Some (Store t app) \<Longrightarrow>
   currentStoredData (snd (getNextAction (Inr r) nowMs now c)) =
     (if app \<and> currentStoredData c \<noteq> []
      then currentStoredData c @ [CHR 0x0A] @ take MAX_STORED_LENGTH t
      else take MAX_STORED_LENGTH t)"
  by (simp add: getNextAction_def handleStoreAndPrint_def Let_def addToHistory_def
        validateStoredData_take)

lemma getNextAction_store_result:
  "action r = Some (Store t app) \<Longrightarrow>
   fst (getNextAction (Inr r) nowMs now c) =
     Inr (r\<lparr> storedData := Some \<lparr> sd_text = currentStoredData
                 (snd (getNextAction (Inr r) nowMs now c)), sd_timestamp = nowMs \<rparr> \<rparr>)"
  by (simp add: getNextAction_def handleStoreAndPrint_def Let_def addToHistory_def)

lemma getNextAction_print:
  "action r = Some (Print t) \<Longrightarrow>
   fst (getNextAction (Inr r) nowMs now c) =
     Inr (r\<lparr> action := Some (Print (take MAX_PRINT_LENGTH t)) \<rparr>)"
  by (simp add: getNextAction_def handleStoreAndPrint_def Let_def addToHistory_def
        validatePrintData_take)

text \<open>
  C8. A STORE of a non-empty text \<open>x\<close> without \<open>append\<close>, then a STORE of \<open>y\<close> with
  \<open>append\<close>, leave \<open>x\<close>, a line break and \<open>y\<close> in the buffer; a following STORE of \<open>z\<close>
  without \<open>append\<close> leaves \<open>z\<close>. Each text is cut to the maximum of 2000 before it is
  stored or printed, and the call returns the response instead of failing.
\<close>

theorem store_append_then_replace:
  assumes "x \<noteq> []"
    and "action r1 = Some (Store x False)"
    and "action r2 = Some (Store y True)"
    and "action r3 = Some (Store z False)"
    and "action r4 = Some (Print t)"
  shows "currentStoredData (snd (getNextAction (Inr r1) m1 n1 c)) = take MAX_STORED_LENGTH x \<and>
    currentStoredData
      (snd (getNextAction (Inr r2) m2 n2 (snd (getNextAction (Inr r1) m1 n1 c)))) =
      take MAX_STORED_LENGTH x @ [CHR 0x0A] @ take MAX_STORED_LENGTH y \<and>
    currentStoredData
      (snd (getNextAction (Inr r3) m3 n3
         (snd (getNextAction (Inr r2) m2 n2 (snd (getNextAction (Inr r1) m1 n1 c)))))) =
      take MAX_STORED_LENGTH z \<and>
    fst (getNextAction (Inr r1) m1 n1 c) =
      Inr (r1\<lparr> storedData := Some \<lparr> sd_text = take MAX_STORED_LENGTH x, sd_timestamp = m1 \<rparr> \<rparr>) \<and>
    fst (getNextAction (Inr r4) m4 n4 c) =
      Inr (r4\<lparr> action := Some (Print (take MAX_PRINT_LENGTH t)) \<rparr>) \<and>
    MAX_STORED_LENGTH = 2000 \<and> MAX_PRINT_LENGTH = 2000 \<and>
    length (take MAX_STORED_LENGTH x) \<le> 2000 \<and> length (take MAX_PRINT_LENGTH t) \<le> 2000"
  using assms
  by (simp add: getNextAction_store getNextAction_store_result getNextAction_print
        MAX_STORED_LENGTH_def MAX_PRINT_LENGTH_def)

theorem store_append_then_replace_witness:
  "''x'' \<noteq> [] \<and>
   currentStoredData
     (snd (getNextAction (Inr (response (Store ''y'' True))) 2 ''t2''
        (snd (getNextAction (Inr (response (Store ''x'' False))) 1 ''t1'' newAIClient)))) =
     ''x'' @ [CHR 0x0A] @ ''y'' \<and>
   currentStoredData
     (snd (getNextAction (Inr (response (Store ''z'' False))) 3 ''t3''
        (snd (getNextAction (Inr (response (Store ''y'' True))) 2 ''t2''
           (snd (getNextAction (Inr (response (Store ''x'' False))) 1 ''t1'' newAIClient)))))) =
     ''z'' \<and>
   fst (getNextAction (Inr (response (Print (replicate 2001 CHR ''p'')))) 4 ''t4'' newAIClient) =
     Inr ((response (Print (replicate 2001 CHR ''p'')))
            \<lparr> action := Some (Print (replicate 2000 CHR ''p'')) \<rparr>)"
  using store_append_then_replace [of "''x''" "response (Store ''x'' False)"
      "response (Store ''y'' True)" "''y''" "response (Store ''z'' False)" "''z''"
      "response (Print (replicate 2001 CHR ''p''))" "replicate 2001 CHR ''p''"
      1 "''t1''" newAIClient 2 "''t2''" 3 "''t3''" 4 "''t4''"]
  by (simp add: response_def MAX_STORED_LENGTH_def MAX_PRINT_LENGTH_def)

section \<open>The decision the parser returns\<close>

text \<open>
  C9, as the code has it. Every response the parser returns has an action that is not
  null and has a type; \<open>completed\<close> is set exactly when that type is \<open>COMPLETE\<close> and
  \<open>failed\<close> exactly when it is \<open>FAILED\<close>, so the two flags are never both set, and a
  terminal outcome always comes with its action.
\<close>

theorem parse_flags_follow_action_type:
  "parse JSON_parse raw = Inr r \<Longrightarrow>
     truthy (Some (p_action r)) \<and> truthy (getProp (p_action r) ''type'') \<and>
     (p_completed r \<longleftrightarrow> getProp (p_action r) ''type'' = Some (JStr ''COMPLETE'')) \<and>
     (p_failed r \<longleftrightarrow> getProp (p_action r) ''type'' = Some (JStr ''FAILED'')) \<and>
     \<not> (p_completed r \<and> p_failed r)"
  by (auto simp: parse_def parseValue_def split: option.splits sum.splits if_splits)

theorem parse_flags_follow_action_type_witness:
  \<open>parse (\<lambda>m. Some (JObj [(''action'', JObj [(''type'', JStr ''CLICK'')])]))
      ''{"action":{"type":"CLICK"}}'' =
     Inr \<lparr> p_action = JObj [(''type'', JStr ''CLICK'')], p_reasoning = JStr [],
           p_completed = False, p_failed = False \<rparr> \<and>
   truthy (Some (JObj [(''type'', JStr ''CLICK'')])) \<and>
   truthy (getProp (JObj [(''type'', JStr ''CLICK'')]) ''type'')\<close>
proof -
  have p: \<open>parse (\<lambda>m. Some (JObj [(''action'', JObj [(''type'', JStr ''CLICK'')])]))
      ''{"action":{"type":"CLICK"}}'' =
     Inr \<lparr> p_action = JObj [(''type'', JStr ''CLICK'')], p_reasoning = JStr [],
           p_completed = False, p_failed = False \<rparr>\<close>
    by (simp add: parse_def parseValue_def jsonMatch_def)
  from parse_flags_follow_action_type [OF p] p show ?thesis by simp
qed

text \<open>
  C9 as stated fails on the response to a COMPLETE action: the action is present and
  \<open>completed\<close> is set with it.
\<close>

theorem parse_complete_has_action_and_flag:
  \<open>parse (\<lambda>m. Some (JObj [(''action'', JObj [(''type'', JStr ''COMPLETE'')])]))
      ''{"action":{"type":"COMPLETE"}}'' =
     Inr \<lparr> p_action = JObj [(''type'', JStr ''COMPLETE'')], p_reasoning = JStr [],
           p_completed = True, p_failed = False \<rparr> \<and>
   truthy (Some (JObj [(''type'', JStr ''COMPLETE'')]))\<close>
  by (simp add: parse_def parseValue_def jsonMatch_def)

section \<open>What the decision loop leaves untouched\<close>

lemma take_trans:
  assumes "take (length a) b = a" and "take (length b) c = b"
  shows "take (length a) c = a"
proof -
  have "length a \<le> length b"
    using arg_cong[OF assms(1), of length] by simp
  then have "take (length a) (take (length b) c) = take (length a) c"
    by (simp add: min_def)
  with assms show ?thesis by simp
qed

lemma same_refl [simp]: "same w w"
  by (simp add: same_def)

lemma same_trans: "same w w1 \<Longrightarrow> same w1 w2 \<Longrightarrow> same w w2"
  unfolding same_def using take_trans[of "trace w" "trace w1" "trace w2"] by simp

lemma same_emit [simp]: "same w (emit e w)"
  by (simp add: same_def emit_def)

lemma same_tick [simp]: "same w (tick w)"
  by (simp add: same_def tick_def)

lemma same_appendLog [simp]: "same w (appendLog E ty m w)"
  by (simp add: same_def appendLog_def tick_def)

lemma same_askAI: "same w (snd (askAI E p lr w))"
  by (simp add: same_def askAI_def tick_def emit_def split: prod.splits)

lemma same_completeTask [simp]: "same w (completeTask E w)"
  by (simp add: same_def completeTask_def appendLog_def tick_def updateExecutionState_def)

lemma same_failTask [simp]: "same w (failTask E r w)"
  by (simp add: same_def failTask_def appendLog_def tick_def updateExecutionState_def)

lemma same_noteTimeout [simp]: "same w (noteTimeout r w)"
  by (simp add: noteTimeout_def)

lemma same_reinject: "same w (snd (reinjectContentScript E w))"
  by (simp add: same_def reinjectContentScript_def emit_def)

lemma same_sendMessage:
  "sendMessage n E t cmd w = Some (r, w') \<Longrightarrow> same w w'"
proof (induction n arbitrary: w)
  case 0
  then show ?case by simp
next
  case (Suc n)
  let ?w1 = "noteTimeout (tabsSendMessage E (sends w))
               (emit (SendMessage t cmd) (w\<lparr> sends := Suc (sends w) \<rparr>))"
  have a: "same w ?w1"
    by (simp add: same_def noteTimeout_def emit_def)
  show ?case
  proof (cases "tabsSendMessage E (sends w) = ReceivingEndMissing")
    case False
    with Suc.prems a show ?thesis by (auto simp: Let_def)
  next
    case True
    obtain e w2 where ri: "reinjectContentScript E ?w1 = (e, w2)"
      by (cases "reinjectContentScript E ?w1")
    have b: "same ?w1 w2"
      using same_reinject[of ?w1 E] ri by simp
    show ?thesis
    proof (cases e)
      case None
      with Suc.prems True ri have "sendMessage n E t cmd w2 = Some (r, w')"
        by (simp add: Let_def)
      from Suc.IH[OF this] a b show ?thesis by (blast intro: same_trans)
    next
      case (Some err)
      with Suc.prems True ri have "w' = w2" by (simp add: Let_def)
      with a b show ?thesis by (blast intro: same_trans)
    qed
  qed
qed

lemma same_executeInTab:
  "executeInTab n E t cmd w = Some (r, w') \<Longrightarrow> same w w'"
  unfolding executeInTab_def
  by (auto split: if_splits dest!: same_sendMessage simp: same_def emit_def)

lemma same_onUpdatedListener: "same w (snd (onUpdatedListener E w))"
  unfolding onUpdatedListener_def
  using same_trans[OF same_emit[of w "Sleep 2000"] same_reinject[of "emit (Sleep 2000) w" E]] .

lemma same_staleListeners: "same w (staleListeners k E w)"
proof (induction k arbitrary: w)
  case 0
  then show ?case by simp
next
  case (Suc k)
  from same_trans[OF same_onUpdatedListener Suc.IH] show ?case by simp
qed

lemma same_tabComplete: "same w (tabComplete E tab w)"
  using same_staleListeners[of w "navListeners w" E]
  by (simp add: tabComplete_def same_def)

lemma same_navigate: "same w (snd (navigate E u w))"
proof -
  let ?w1 = "emit (TabsUpdate (tabId w) u) (w\<lparr> navigations := Suc (navigations w) \<rparr>)"
  have a: "same w ?w1" by (simp add: same_def emit_def)
  have b: "same w (snd (onUpdatedListener E (tabComplete E (tabId w) ?w1)))"
    using same_trans[OF a same_trans[OF same_tabComplete same_onUpdatedListener]] .
  have c: "same w (?w1\<lparr> navListeners := Suc (navListeners ?w1) \<rparr>)"
    "same w (emit (TimerFired 15000) (?w1\<lparr> navListeners := Suc (navListeners ?w1) \<rparr>))"
    by (simp_all add: same_def emit_def)
  show ?thesis
    using b c by (simp add: navigate_def Let_def split: nav_outcome.splits)
qed


lemma same_tracks: "same w w' \<Longrightarrow> tracks w w'"
  by (simp add: same_def tracks_def)

lemma tracks_refl [simp]: "tracks w w"
  by (simp add: tracks_def)

lemma tracks_trans: "tracks w w1 \<Longrightarrow> tracks w1 w2 \<Longrightarrow> tracks w w2"
  unfolding tracks_def using take_trans[of "trace w" "trace w1" "trace w2"] by simp

lemma performAction_effect:
  assumes "performAction n E a w = Some (r, w')"
  shows "currentStep (executionState w') = currentStep (executionState w) \<and>
         dispatched w' = dispatched w @ [a] \<and> received w' = received w \<and>
         timerState w' = timerState w \<and> take (length (trace w)) (trace w') = trace w"
proof -
  let ?w0 = "w\<lparr> dispatched := dispatched w @ [a] \<rparr>"
  have "same ?w0 w'"
  proof (cases a)
    case (Navigate u)
    with assms same_navigate[of ?w0 E u] show ?thesis
      by (auto simp: performAction_def Let_def)
  next
    case (Click x)
    with assms show ?thesis
      by (auto simp: performAction_def Let_def dest: same_executeInTab)
  next
    case (Type x y)
    with assms show ?thesis
      by (auto simp: performAction_def Let_def dest: same_executeInTab)
  next
    case (Submit x)
    with assms show ?thesis
      by (auto simp: performAction_def Let_def dest: same_executeInTab)
  next
    case (Scroll x y)
    with assms show ?thesis
      by (auto simp: performAction_def Let_def dest: same_executeInTab)
  next
    case (Hover x)
    with assms show ?thesis
      by (auto simp: performAction_def Let_def dest: same_executeInTab)
  next
    case (Store x y)
    with assms show ?thesis
      by (auto simp: performAction_def Let_def)
  next
    case (Print x)
    with assms same_appendLog[of ?w0 E LInfo x] show ?thesis
      by (auto simp: performAction_def Let_def)
  next
    case Complete
    with assms same_completeTask[of ?w0 E] show ?thesis
      by (auto simp: performAction_def Let_def)
  next
    case (Failed x)
    with assms same_failTask[of ?w0 E x] show ?thesis
      by (auto simp: performAction_def Let_def)
  qed
  then show ?thesis by (simp add: same_def)
qed

lemma stopExecution_same [simp]: "same w (stopExecution w)"
  by (simp add: same_def stopExecution_def)

lemma attemptAction_effect:
  assumes "attemptAction n E a w = Some (r, w')"
  shows "currentStep (executionState w') = Suc (currentStep (executionState w)) \<and>
         dispatched w' = dispatched w @ [a] \<and> received w' = received w \<and>
         timerState w' = timerState w \<and> take (length (trace w)) (trace w') = trace w"
  using assms
  by (auto simp: attemptAction_def stopExecution_def split: option.splits if_splits
        dest!: performAction_effect)

lemma attemptAction_tracks: "attemptAction n E a w = Some (r, w') \<Longrightarrow> tracks w w'"
  by (drule attemptAction_effect) (simp add: tracks_def)

lemma loop_tracks:
  "(\<forall>w'. requestNextAction n E w = Some w' \<longrightarrow> tracks w w')"
  "(\<forall>r w'. executeAction n E a v = Some (r, w') \<longrightarrow> tracks v w')"
proof (induction n E w and n E a v rule: requestNextAction_executeAction.induct)
  case (1 E w)
  then show ?case by simp
next
  case (2 n E w)
  show ?case
  proof (intro allI impI)
    fix w' assume run: "requestNextAction (Suc n) E w = Some w'"
    show "tracks w w'"
    proof (cases "currentTask w")
      case None
      with run show ?thesis by simp
    next
      case (Some prompt)
      obtain res w1 where ask: "askAI E prompt (Some (lastActionResult w)) w = (res, w1)"
        by (cases "askAI E prompt (Some (lastActionResult w)) w")
      have t1: "tracks w w1"
        using same_askAI[of w E prompt "Some (lastActionResult w)"] ask by (simp add: same_tracks)
      show ?thesis
      proof (cases res)
        case (Inl e)
        with run Some ask t1 show ?thesis by simp
      next
        case (Inr resp)
        show ?thesis
        proof (cases "action resp")
          case None
          have "tracks w1 ((completeTask E w1)\<lparr> currentTask := None \<rparr>)"
            using same_completeTask[of w1 E] by (simp add: same_def tracks_def)
          with run \<open>currentTask w = Some prompt\<close> ask Inr None t1 show ?thesis
            by (auto split: if_splits intro: tracks_trans)
        next
          case (Some a)
          let ?w2 = "appendLog E LInfo (''AI Response: '' @ reasoning resp)
                       (updateExecutionState (\<lambda>s. s\<lparr> currentAction := Some a \<rparr>) w1)"
          have t2: "tracks w1 ?w2"
            by (simp add: tracks_def appendLog_def tick_def updateExecutionState_def)
          from run \<open>currentTask w = Some prompt\<close> ask Inr Some
          obtain r where ex: "executeAction n E a ?w2 = Some (r, w')"
            by (auto split: option.splits)
          from 2[OF \<open>currentTask w = Some prompt\<close> ask[symmetric] Inr Some] ex
          have "tracks ?w2 w'" by blast
          with t1 t2 show ?thesis by (blast intro: tracks_trans)
        qed
      qed
    qed
  qed
next
  case (3 n E a v)
  show ?case
  proof (intro allI impI)
    fix r w' assume run: "executeAction n E a v = Some (r, w')"
    show "tracks v w'"
    proof (cases "noTargetTab v")
      case True
      with run show ?thesis by simp
    next
      case False
      with run obtain att w1 where at: "attemptAction n E a v = Some (att, w1)"
        by (auto split: option.splits)
      have t1: "tracks v w1" using at by (rule attemptAction_tracks)
      show ?thesis
      proof (cases "att = BudgetExhausted")
        case True
        with run False at t1 show ?thesis by simp
      next
        case nb: False
        show ?thesis
        proof (cases "status (executionState w1) = StRunning")
          case False
          with run \<open>\<not> noTargetTab v\<close> at nb t1 show ?thesis
            by (cases att) (auto simp: tracks_def)
        next
          case True
          with run \<open>\<not> noTargetTab v\<close> at nb
          have "requestNextAction n E (w1\<lparr> lastActionResult := resultOf att \<rparr>) = Some w'"
            by (cases att) (auto split: option.splits)
          moreover have "tracks w1 (w1\<lparr> lastActionResult := resultOf att \<rparr>)"
            by (simp add: tracks_def)
          ultimately show ?thesis
            using 3 \<open>\<not> noTargetTab v\<close> at nb True t1
            by (cases att) (auto intro: tracks_trans)
        qed
      qed
    qed
  qed
qed

section \<open>The step counter\<close>

lemma requestNextAction_tracks: "requestNextAction n E w = Some w' \<Longrightarrow> tracks w w'"
  using loop_tracks(1) by blast

lemma handleNewTask_counts:
  assumes "handleNewTask n E prompt w = Some w'"
  shows "currentStep (executionState w') + length (dispatched w) = length (dispatched w') \<and>
         length (dispatched w) \<le> length (dispatched w')"
  using requestNextAction_tracks[OF assms[unfolded handleNewTask_def]]
  by (simp add: tracks_def stopExecution_def)

lemma pageStateCallback_counts:
  assumes "pageStateCallback n E state w = Some w'"
  shows "currentStep (executionState w') + length (dispatched w) =
           currentStep (executionState w) + length (dispatched w') \<and>
         length (dispatched w) \<le> length (dispatched w') \<and>
         received w' = received w @ [state] \<and> lastPageState w' = Some state \<and>
         timers w' = timers w \<and> timerIds w' = timerIds w \<and>
         take (length (trace w)) (trace w') = trace w"
  using assms
  by (auto simp: pageStateCallback_def Let_def tracks_def
        split: if_splits option.splits dest!: requestNextAction_tracks)

lemma fireTimers_counts:
  "fireTimers n E ts w = Some w' \<Longrightarrow>
   currentStep (executionState w') + length (dispatched w) =
     currentStep (executionState w) + length (dispatched w') \<and>
   length (dispatched w) \<le> length (dispatched w')"
proof (induction ts arbitrary: w)
  case Nil
  then show ?case by simp
next
  case (Cons x ts)
  obtain i due s where x: "x = (i, due, s)" by (cases x)
  from Cons.prems x obtain w1 where
    a: "pageStateCallback n E s (w\<lparr> timers := clearTimeout i (timers w) \<rparr>) = Some w1"
    and b: "fireTimers n E ts w1 = Some w'"
    by (auto split: option.splits)
  from pageStateCallback_counts[OF a] Cons.IH[OF b] show ?case by simp
qed

lemma advanceTo_counts:
  assumes "advanceTo n E t w = Some w'"
  shows "currentStep (executionState w') + length (dispatched w) =
           currentStep (executionState w) + length (dispatched w') \<and>
         length (dispatched w) \<le> length (dispatched w')"
  using assms unfolding advanceTo_def by (rule fireTimers_counts)

lemma onEvent_counts:
  assumes "onEvent n E t ev w = Some w'" and "\<not> isStartTask ev"
  shows "currentStep (executionState w') + length (dispatched w) =
           currentStep (executionState w) + length (dispatched w') \<and>
         length (dispatched w) \<le> length (dispatched w')"
proof (cases ev)
  case (Received m)
  with assms show ?thesis
    by (auto simp: onEvent_def onMessage_def isStartTask_def handlePageStateUpdate_def
          stopExecution_def split: message.splits if_splits)
next
  case CallbackEnds
  with assms show ?thesis by (auto simp: onEvent_def callbackEnds_def)
next
  case (TabComplete tab)
  with assms same_tabComplete[of w E tab] show ?thesis
    by (auto simp: onEvent_def same_def)
qed

lemma run_counts:
  "run n E evs w = Some w' \<Longrightarrow> list_all (\<lambda>(t, m). \<not> isStartTask m) evs \<Longrightarrow>
   currentStep (executionState w') + length (dispatched w) =
     currentStep (executionState w) + length (dispatched w') \<and>
   length (dispatched w) \<le> length (dispatched w')"
proof (induction evs arbitrary: w)
  case Nil
  then show ?case by simp
next
  case (Cons ev evs)
  obtain t m where ev: "ev = (t, m)" by (cases ev)
  from Cons.prems(1) ev obtain w1 w2 where
    a: "advanceTo n E t w = Some w1" and b: "onEvent n E t m w1 = Some w2"
    and c: "run n E evs w2 = Some w'"
    by (auto split: option.splits)
  from Cons.prems(2) ev have ns: "\<not> isStartTask m"
    and rest: "list_all (\<lambda>(t, m). \<not> isStartTask m) evs" by simp_all
  from advanceTo_counts[OF a] onEvent_counts[OF b ns] Cons.IH[OF c rest]
  show ?case by linarith
qed

text \<open>
  C7. After a task has been started, at every later point reached by messages other
  than START_TASK (page state updates, timer callbacks and their ends, stops, tabs
  reporting \<open>complete\<close>), \<open>currentStep\<close> is the
  number of actions dispatched since the start; it never decreases from one such point
  to a later one, so only a new task sets it back to 0.
\<close>

theorem currentStep_counts_dispatched:
  assumes "handleNewTask n E prompt w0 = Some w1"
    and "run n E before w1 = Some w2"
    and "run n E after w2 = Some w3"
    and "list_all (\<lambda>(t, m). \<not> isStartTask m) (before @ after)"
  shows "currentStep (executionState w1) = length (dispatched w1) - length (dispatched w0) \<and>
         currentStep (executionState w2) = length (dispatched w2) - length (dispatched w0) \<and>
         currentStep (executionState w3) = length (dispatched w3) - length (dispatched w0) \<and>
         currentStep (executionState w1) \<le> currentStep (executionState w2) \<and>
         currentStep (executionState w2) \<le> currentStep (executionState w3)"
proof -
  from assms(4) have b: "list_all (\<lambda>(t, m). \<not> isStartTask m) before"
    and a: "list_all (\<lambda>(t, m). \<not> isStartTask m) after" by simp_all
  from handleNewTask_counts[OF assms(1)] run_counts[OF assms(2) b] run_counts[OF assms(3) a]
  show ?thesis by linarith
qed

text \<open>The definitions a concrete run is evaluated with.\<close>

lemmas eval_defs = handleNewTask_def stopExecution_def askAI_def getNextAction_def
  handleStoreAndPrint_def addToHistory_def attemptAction_def performAction_def executeInTab_def
  navigate_def reinjectContentScript_def completeTask_def failTask_def appendLog_def
  updateExecutionState_def tick_def emit_def nowISO_def noteTimeout_def replyError_def
  reasonOr_def resultOf_def noTargetTab_def tabId_def markLastFailed_def MAX_ERRORS_def
  response_def deadScripts_def failingScripts_def flakyScripts_def workingScripts_def
  readyService_def runningService_def newBackgroundService_def initialExecutionState_def
  newAIClient_def Let_def pageStateCallback_def advanceTo_def onMessage_def
  handlePageStateUpdate_def isStartTask_def onEvent_def callbackEnds_def clearTimeout_def
  onUpdatedListener_def tabComplete_def

theorem currentStep_counts_dispatched_witness:
  "\<exists>w1 w2 w3.
     handleNewTask 5 workingScripts ''find it'' readyService = Some w1 \<and>
     run 5 workingScripts [(0, Received (PAGE_STATE_UPDATE pageA))] w1 = Some w2 \<and>
     run 5 workingScripts [(1000, Received EXECUTION_STOP)] w2 = Some w3 \<and>
     list_all (\<lambda>(t, m). \<not> isStartTask m) ([(0::nat, Received (PAGE_STATE_UPDATE pageA))] @ [(1000, Received EXECUTION_STOP)]) \<and>
     length (dispatched readyService) = 0 \<and> length (dispatched w1) = 3 \<and>
     currentStep (executionState w1) = 3 \<and> 3 \<le> currentStep (executionState w3)"
proof -
  have "\<exists>w1 w2 w3.
     handleNewTask 5 workingScripts ''find it'' readyService = Some w1 \<and>
     run 5 workingScripts [(0, Received (PAGE_STATE_UPDATE pageA))] w1 = Some w2 \<and>
     run 5 workingScripts [(1000, Received EXECUTION_STOP)] w2 = Some w3 \<and>
     length (dispatched w1) = 3"
    by (simp add: eval_defs eval_nat_numeral)
  then obtain w1 w2 w3 where
    1: "handleNewTask 5 workingScripts ''find it'' readyService = Some w1" and
    2: "run 5 workingScripts [(0, Received (PAGE_STATE_UPDATE pageA))] w1 = Some w2" and
    3: "run 5 workingScripts [(1000, Received EXECUTION_STOP)] w2 = Some w3" and
    d: "length (dispatched w1) = 3"
    by blast
  have ns: "list_all (\<lambda>(t, m). \<not> isStartTask m)
              ([(0::nat, Received (PAGE_STATE_UPDATE pageA))] @ [(1000, Received EXECUTION_STOP)])"
    by (simp add: isStartTask_def)
  have z: "length (dispatched readyService) = 0"
    by (simp add: readyService_def newBackgroundService_def)
  from currentStep_counts_dispatched[OF 1 2 3 ns] d z
  have "currentStep (executionState w1) = 3 \<and> 3 \<le> currentStep (executionState w3)"
    by simp
  with 1 2 3 ns d z show ?thesis by blast
qed

section \<open>Retries and the error budget\<close>

lemma command_cases:
  "command a = Some cmd \<Longrightarrow> cmd \<noteq> ''get_page_state'' \<and> a \<noteq> Complete \<and> (\<forall>r. a \<noteq> Failed r)
     \<and> (\<forall>x y. a \<noteq> Store x y) \<and> (\<forall>x. a \<noteq> Print x) \<and> (\<forall>x. a \<noteq> Navigate x)"
  by (cases a) auto

lemma attemptOnce2_command:
  "command a = Some cmd \<Longrightarrow> attemptOnce2 E a w = executeInTab2 E (tabId w) cmd w"
  by (cases a) (simp_all add: attemptOnce2_def)

lemma executeInTab2_effect:
  "fst (executeInTab2 E t cmd w) = replyError (tabsSendMessage E (sends w)) \<and>
   trace (snd (executeInTab2 E t cmd w)) =
     trace w @ SendMessage t cmd # (if tabsSendMessage E (sends w) = NoReply then [TimerFired 5000] else []) \<and>
   sends (snd (executeInTab2 E t cmd w)) = Suc (sends w) \<and>
   injections (snd (executeInTab2 E t cmd w)) = injections w \<and>
   targetTabId (snd (executeInTab2 E t cmd w)) = targetTabId w \<and>
   errorCount (snd (executeInTab2 E t cmd w)) = errorCount w"
  by (simp add: executeInTab2_def noteTimeout_def emit_def)

lemma reinject2_effect:
  assumes "\<not> noTargetTab w" and "cmd \<noteq> ''get_page_state''"
  shows "\<exists>xs. trace (snd (reinjectContentScript2 E w)) = trace w @ ExecuteScript (tabId w) # xs \<and>
     count_list xs (Sleep 1000) = 0 \<and> count_list xs (SendMessage t cmd) = 0 \<and>
     injections (snd (reinjectContentScript2 E w)) = Suc (injections w) \<and>
     sends w \<le> sends (snd (reinjectContentScript2 E w)) \<and>
     targetTabId (snd (reinjectContentScript2 E w)) = targetTabId w \<and>
     errorCount (snd (reinjectContentScript2 E w)) = errorCount w"
  using assms
  by (auto simp: reinjectContentScript2_def Let_def executeInTab2_def noteTimeout_def emit_def
        split: option.splits)

lemma retryLoop2_effect:
  assumes "command a = Some cmd" and "\<not> noTargetTab w" and "attempts < maxAttempts"
    and "retryLoop2 E a attempts w = (res, w')"
  shows "\<exists>xs. trace w' = trace w @ xs \<and>
     1 \<le> count_list xs (SendMessage (tabId w) cmd) \<and>
     attempts + count_list xs (SendMessage (tabId w) cmd) \<le> maxAttempts \<and>
     (res \<noteq> None \<longrightarrow> attempts + count_list xs (SendMessage (tabId w) cmd) = maxAttempts) \<and>
     count_list xs (Sleep 1000) + 1 = count_list xs (SendMessage (tabId w) cmd) \<and>
     injections w' + 1 = injections w + count_list xs (SendMessage (tabId w) cmd) \<and>
     sends w < sends w' \<and> res = replyError (tabsSendMessage E (sends w' - 1)) \<and>
     targetTabId w' = targetTabId w \<and> errorCount w' = errorCount w"
  using assms
proof (induction E a attempts w rule: retryLoop2.induct)
  case (1 E a attempts w)
  note cmd = \<open>command a = Some cmd\<close>
  have ne: "cmd \<noteq> ''get_page_state''" using command_cases[OF cmd] by simp
  let ?t = "tabId w"
  let ?c = "SendMessage ?t cmd"
  obtain e1 w1 where att: "executeInTab2 E ?t cmd w = (e1, w1)"
    by (cases "executeInTab2 E ?t cmd w")
  from executeInTab2_effect[of E ?t cmd w] att
  have e1: "e1 = replyError (tabsSendMessage E (sends w))"
    and tr1: "trace w1 = trace w @ ?c #
        (if tabsSendMessage E (sends w) = NoReply then [TimerFired 5000] else [])"
    and s1: "sends w1 = Suc (sends w)" and i1: "injections w1 = injections w"
    and tt1: "targetTabId w1 = targetTabId w" and ec1: "errorCount w1 = errorCount w"
    by simp_all
  show ?case
  proof (cases e1)
    case None
    with "1.prems" att cmd have "res = None" "w' = w1"
      by (simp_all add: attemptOnce2_command)
    with tr1 s1 i1 tt1 ec1 e1 None "1.prems"(3) show ?thesis
      by (intro exI[of _ "?c # (if tabsSendMessage E (sends w) = NoReply then [TimerFired 5000] else [])"])
         auto
  next
    case (Some err)
    show ?thesis
    proof (cases "Suc attempts = maxAttempts")
      case True
      with "1.prems" att cmd Some have "res = Some err" "w' = w1"
        by (simp_all add: attemptOnce2_command)
      with tr1 s1 i1 tt1 ec1 e1 Some True show ?thesis
        by (intro exI[of _ "?c # (if tabsSendMessage E (sends w) = NoReply then [TimerFired 5000] else [])"])
           auto
    next
      case False
      let ?w2 = "snd (reinjectContentScript2 E (emit (Sleep 1000) w1))"
      have nt1: "\<not> noTargetTab (emit (Sleep 1000) w1)"
        using "1.prems"(2) tt1 by (simp add: noTargetTab_def emit_def)
      have tid: "tabId (emit (Sleep 1000) w1) = tabId w"
        using tt1 by (simp add: tabId_def emit_def)
      from reinject2_effect[OF nt1 ne, of E ?t]
      obtain ys where tr2: "trace ?w2 = trace (emit (Sleep 1000) w1) @ ExecuteScript ?t # ys"
        and ys1: "count_list ys (Sleep 1000) = 0" and ys2: "count_list ys ?c = 0"
        and i2: "injections ?w2 = Suc (injections (emit (Sleep 1000) w1))"
        and s2: "sends (emit (Sleep 1000) w1) \<le> sends ?w2"
        and tt2: "targetTabId ?w2 = targetTabId (emit (Sleep 1000) w1)"
        and ec2: "errorCount ?w2 = errorCount (emit (Sleep 1000) w1)"
        by (auto simp: tid)
      have nt2: "\<not> noTargetTab ?w2"
        using nt1 tt2 by (simp add: noTargetTab_def)
      have tid2: "tabId ?w2 = tabId w"
        using tt2 tt1 by (simp add: tabId_def emit_def)
      from "1.prems"(3) False have lt: "Suc attempts < maxAttempts" by simp
      from "1.prems" att cmd Some False
      have rec: "retryLoop2 E a (Suc attempts) ?w2 = (res, w')"
        by (simp add: attemptOnce2_command)
      have att': "(e1, w1) = attemptOnce2 E a w"
        using att cmd by (simp add: attemptOnce2_command)
      from "1.IH"[OF "1.prems"(3) att' Some False cmd nt2 lt rec]
      obtain zs where tr3: "trace w' = trace ?w2 @ zs"
        and k1: "1 \<le> count_list zs ?c"
        and k2: "Suc attempts + count_list zs ?c \<le> maxAttempts"
        and k3: "res \<noteq> None \<longrightarrow> Suc attempts + count_list zs ?c = maxAttempts"
        and k4: "count_list zs (Sleep 1000) + 1 = count_list zs ?c"
        and k5: "injections w' + 1 = injections ?w2 + count_list zs ?c"
        and k6: "sends ?w2 < sends w'" and k7: "res = replyError (tabsSendMessage E (sends w' - 1))"
        and k8: "targetTabId w' = targetTabId ?w2" and k9: "errorCount w' = errorCount ?w2"
        by (auto simp: tid2)
      let ?xs = "?c # (if tabsSendMessage E (sends w) = NoReply then [TimerFired 5000] else [])
                 @ Sleep 1000 # ExecuteScript ?t # ys @ zs"
      have "trace w' = trace w @ ?xs"
        using tr1 tr2 tr3 by (simp add: emit_def)
      moreover have "count_list ?xs ?c = Suc (count_list zs ?c)"
        using ys2 by simp
      moreover have "count_list ?xs (Sleep 1000) = Suc (count_list zs (Sleep 1000))"
        using ys1 by simp
      moreover have "injections ?w2 = Suc (injections w)"
        using i2 i1 by (simp add: emit_def)
      moreover have "sends w < sends w'"
        using s1 s2 k6 by (simp add: emit_def)
      moreover have "targetTabId w' = targetTabId w" "errorCount w' = errorCount w"
        using k8 k9 tt2 ec2 tt1 ec1 by (simp_all add: emit_def)
      ultimately show ?thesis
        using k1 k2 k3 k4 k5 k7
        by (intro exI[of _ ?xs]) (simp del: count_list.simps)
    qed
  qed
qed


lemma executeAction2_retry:
  assumes "command a = Some cmd" and "\<not> noTargetTab w"
  shows "executeAction2 E a w =
     retryLoop2 E a 0
       (appendLog E LInfo (getActionDescription E a)
          (updateExecutionState (\<lambda>s. s\<lparr> currentAction := Some a \<rparr>) w))"
  using assms by (cases a) (simp_all add: executeAction2_def)

lemma logged_fields:
  "trace (appendLog E ty m (updateExecutionState f w)) = trace w \<and>
   injections (appendLog E ty m (updateExecutionState f w)) = injections w \<and>
   sends (appendLog E ty m (updateExecutionState f w)) = sends w \<and>
   navigations (appendLog E ty m (updateExecutionState f w)) = navigations w \<and>
   targetTabId (appendLog E ty m (updateExecutionState f w)) = targetTabId w \<and>
   errorCount (appendLog E ty m (updateExecutionState f w)) = errorCount w"
  by (simp add: appendLog_def updateExecutionState_def tick_def)

lemma executeAction2_attempts:
  assumes "command a = Some cmd" and "\<not> noTargetTab w" and "executeAction2 E a w = (res, w')"
  shows "1 \<le> count_list (newTrace w w') (SendMessage (tabId w) cmd) \<and>
     count_list (newTrace w w') (SendMessage (tabId w) cmd) \<le> 3 \<and>
     (res \<noteq> None \<longrightarrow> count_list (newTrace w w') (SendMessage (tabId w) cmd) = 3) \<and>
     count_list (newTrace w w') (Sleep 1000) + 1 =
       count_list (newTrace w w') (SendMessage (tabId w) cmd) \<and>
     injections w' + 1 = injections w + count_list (newTrace w w') (SendMessage (tabId w) cmd) \<and>
     res = replyError (tabsSendMessage E (sends w' - 1)) \<and>
     errorCount w' = errorCount w"
proof -
  let ?w1 = "appendLog E LInfo (getActionDescription E a)
          (updateExecutionState (\<lambda>s. s\<lparr> currentAction := Some a \<rparr>) w)"
  have r: "retryLoop2 E a 0 ?w1 = (res, w')"
    using executeAction2_retry[OF assms(1,2)] assms(3) by simp
  have nt: "\<not> noTargetTab ?w1"
    using assms(2) logged_fields[of E LInfo "getActionDescription E a" _ w]
    by (simp add: noTargetTab_def)
  have tid: "tabId ?w1 = tabId w"
    using logged_fields[of E LInfo "getActionDescription E a" _ w] by (simp add: tabId_def)
  have m: "0 < maxAttempts" by (simp add: maxAttempts_def)
  from retryLoop2_effect[OF assms(1) nt m r]
  obtain xs where "trace w' = trace ?w1 @ xs"
     "1 \<le> count_list xs (SendMessage (tabId w) cmd)"
     "count_list xs (SendMessage (tabId w) cmd) \<le> maxAttempts"
     "res \<noteq> None \<longrightarrow> count_list xs (SendMessage (tabId w) cmd) = maxAttempts"
     "count_list xs (Sleep 1000) + 1 = count_list xs (SendMessage (tabId w) cmd)"
     "injections w' + 1 = injections ?w1 + count_list xs (SendMessage (tabId w) cmd)"
     "res = replyError (tabsSendMessage E (sends w' - 1))"
     "errorCount w' = errorCount ?w1"
    by (auto simp: tid)
  moreover have "trace ?w1 = trace w" "injections ?w1 = injections w" "errorCount ?w1 = errorCount w"
    using logged_fields[of E LInfo "getActionDescription E a" _ w] by simp_all
  ultimately show ?thesis
    by (simp add: newTrace_def maxAttempts_def)
qed

lemma sendMessage_resends:
  assumes "\<not> noTargetTab w"
    and "\<forall>i<k. tabsSendMessage E (sends w + i) = ReceivingEndMissing \<and>
               executeScript E (injections w + i) = None"
    and "tabsSendMessage E (sends w + k) \<noteq> ReceivingEndMissing"
  shows "\<exists>w' xs. sendMessage (Suc k + m) E t cmd w =
             Some (replyError (tabsSendMessage E (sends w + k)), w') \<and>
           trace w' = trace w @ xs \<and> count_list xs (SendMessage t cmd) = Suc k \<and>
           sends w' = sends w + Suc k \<and> injections w' = injections w + k \<and>
           errorCount w' = errorCount w \<and> executionState w' = executionState w"
  using assms
proof (induction k arbitrary: w)
  case 0
  then show ?case
    by (auto simp: Let_def noteTimeout_def emit_def)
next
  case (Suc k)
  let ?w1 = "emit (SendMessage t cmd) (w\<lparr> sends := Suc (sends w) \<rparr>)"
  let ?w2 = "emit (ExecuteScript (tabId w)) (?w1\<lparr> injections := Suc (injections w) \<rparr>)"
  from Suc.prems(2) have r0: "tabsSendMessage E (sends w) = ReceivingEndMissing"
    and x0: "executeScript E (injections w) = None"
    using Suc.prems(2)[rule_format, of 0] by simp_all
  have step: "sendMessage (Suc (Suc k) + m) E t cmd w = sendMessage (Suc k + m) E t cmd ?w2"
    using r0 x0 Suc.prems(1)
    by (simp add: Let_def noteTimeout_def reinjectContentScript_def emit_def noTargetTab_def
          tabId_def)
  have nt: "\<not> noTargetTab ?w2"
    using Suc.prems(1) by (simp add: noTargetTab_def emit_def)
  have s2: "sends ?w2 = Suc (sends w)" and i2: "injections ?w2 = Suc (injections w)"
    by (simp_all add: emit_def)
  have h: "\<forall>i<k. tabsSendMessage E (sends ?w2 + i) = ReceivingEndMissing \<and>
                  executeScript E (injections ?w2 + i) = None"
  proof (intro allI impI)
    fix i assume "i < k"
    then have "Suc i < Suc k" by simp
    from Suc.prems(2)[rule_format, OF this] show
      "tabsSendMessage E (sends ?w2 + i) = ReceivingEndMissing \<and>
       executeScript E (injections ?w2 + i) = None"
      by (simp add: s2 i2)
  qed
  have l: "tabsSendMessage E (sends ?w2 + k) \<noteq> ReceivingEndMissing"
    using Suc.prems(3) by (simp add: s2)
  from Suc.IH[OF nt h l] obtain w' xs where
    a: "sendMessage (Suc k + m) E t cmd ?w2 =
          Some (replyError (tabsSendMessage E (sends ?w2 + k)), w')"
    and b: "trace w' = trace ?w2 @ xs" and c: "count_list xs (SendMessage t cmd) = Suc k"
    and d: "sends w' = sends ?w2 + Suc k" "injections w' = injections ?w2 + k"
       "errorCount w' = errorCount ?w2" "executionState w' = executionState ?w2"
    by blast
  let ?ys = "SendMessage t cmd # ExecuteScript (tabId w) # xs"
  have "trace w' = trace w @ ?ys" using b by (simp add: emit_def)
  moreover have "count_list ?ys (SendMessage t cmd) = Suc (Suc k)" using c by simp
  ultimately show ?case
    using step a d
    by (intro exI[of _ w'] exI[of _ ?ys]) (simp add: s2 i2 emit_def del: count_list.simps)
qed

lemma sendMessage_reinject_fails:
  assumes "\<not> noTargetTab w"
    and "\<forall>i<k. tabsSendMessage E (sends w + i) = ReceivingEndMissing \<and>
               executeScript E (injections w + i) = None"
    and "tabsSendMessage E (sends w + k) = ReceivingEndMissing"
    and "executeScript E (injections w + k) = Some e"
  shows "\<exists>w' xs. sendMessage (Suc k + m) E t cmd w = Some (Some e, w') \<and>
           trace w' = trace w @ xs \<and> count_list xs (SendMessage t cmd) = Suc k \<and>
           sends w' = sends w + Suc k \<and> injections w' = injections w + Suc k \<and>
           errorCount w' = errorCount w \<and> executionState w' = executionState w"
  using assms
proof (induction k arbitrary: w)
  case 0
  then show ?case
    by (auto simp: Let_def noteTimeout_def emit_def reinjectContentScript_def noTargetTab_def)
next
  case (Suc k)
  let ?w1 = "emit (SendMessage t cmd) (w\<lparr> sends := Suc (sends w) \<rparr>)"
  let ?w2 = "emit (ExecuteScript (tabId w)) (?w1\<lparr> injections := Suc (injections w) \<rparr>)"
  from Suc.prems(2) have r0: "tabsSendMessage E (sends w) = ReceivingEndMissing"
    and x0: "executeScript E (injections w) = None"
    using Suc.prems(2)[rule_format, of 0] by simp_all
  have step: "sendMessage (Suc (Suc k) + m) E t cmd w = sendMessage (Suc k + m) E t cmd ?w2"
    using r0 x0 Suc.prems(1)
    by (simp add: Let_def noteTimeout_def reinjectContentScript_def emit_def noTargetTab_def
          tabId_def)
  have nt: "\<not> noTargetTab ?w2"
    using Suc.prems(1) by (simp add: noTargetTab_def emit_def)
  have s2: "sends ?w2 = Suc (sends w)" and i2: "injections ?w2 = Suc (injections w)"
    by (simp_all add: emit_def)
  have h: "\<forall>i<k. tabsSendMessage E (sends ?w2 + i) = ReceivingEndMissing \<and>
                  executeScript E (injections ?w2 + i) = None"
  proof (intro allI impI)
    fix i assume "i < k"
    then have "Suc i < Suc k" by simp
    from Suc.prems(2)[rule_format, OF this] show
      "tabsSendMessage E (sends ?w2 + i) = ReceivingEndMissing \<and>
       executeScript E (injections ?w2 + i) = None"
      by (simp add: s2 i2)
  qed
  have l: "tabsSendMessage E (sends ?w2 + k) = ReceivingEndMissing"
    "executeScript E (injections ?w2 + k) = Some e"
    using Suc.prems(3,4) by (simp_all add: s2 i2)
  from Suc.IH[OF nt h l] obtain w' xs where
    a: "sendMessage (Suc k + m) E t cmd ?w2 = Some (Some e, w')"
    and b: "trace w' = trace ?w2 @ xs" and c: "count_list xs (SendMessage t cmd) = Suc k"
    and d: "sends w' = sends ?w2 + Suc k" "injections w' = injections ?w2 + Suc k"
       "errorCount w' = errorCount ?w2" "executionState w' = executionState ?w2"
    by blast
  let ?ys = "SendMessage t cmd # ExecuteScript (tabId w) # xs"
  have "trace w' = trace w @ ?ys" using b by (simp add: emit_def)
  moreover have "count_list ?ys (SendMessage t cmd) = Suc (Suc k)" using c by simp
  ultimately show ?case
    using step a d
    by (intro exI[of _ w'] exI[of _ ?ys]) (simp add: s2 i2 emit_def del: count_list.simps)
qed

lemma sendMessage_never_returns:
  assumes "\<not> noTargetTab w"
    and "\<forall>i. tabsSendMessage E (sends w + i) = ReceivingEndMissing \<and>
             executeScript E (injections w + i) = None"
  shows "sendMessage n E t cmd w = None"
  using assms
proof (induction n arbitrary: w)
  case 0
  then show ?case by simp
next
  case (Suc n)
  let ?w1 = "emit (SendMessage t cmd) (w\<lparr> sends := Suc (sends w) \<rparr>)"
  let ?w2 = "emit (ExecuteScript (tabId w)) (?w1\<lparr> injections := Suc (injections w) \<rparr>)"
  from Suc.prems(2)[rule_format, of 0] have r0: "tabsSendMessage E (sends w) = ReceivingEndMissing"
    and x0: "executeScript E (injections w) = None" by simp_all
  have step: "sendMessage (Suc n) E t cmd w = sendMessage n E t cmd ?w2"
    using r0 x0 Suc.prems(1)
    by (simp add: Let_def noteTimeout_def reinjectContentScript_def emit_def noTargetTab_def
          tabId_def)
  have nt: "\<not> noTargetTab ?w2"
    using Suc.prems(1) by (simp add: noTargetTab_def emit_def)
  have h: "\<forall>i. tabsSendMessage E (sends ?w2 + i) = ReceivingEndMissing \<and>
               executeScript E (injections ?w2 + i) = None"
    using Suc.prems(2)[rule_format, of "Suc _"] by (simp add: emit_def)
  from Suc.IH[OF nt h] step show ?case by simp
qed

lemma performAction_command:
  "command a = Some cmd \<Longrightarrow>
   performAction n E a w = executeInTab n E (tabId w) cmd (w\<lparr> dispatched := dispatched w @ [a] \<rparr>)"
  by (cases a) (simp_all add: performAction_def Let_def tabId_def)

lemma executeInTab_ready:
  assumes "t \<in> contentScriptReadyTabs w \<or> becomesReady E (readyWaits w)"
  shows "\<exists>v. executeInTab n E t cmd w = sendMessage n E t cmd v \<and>
           sends v = sends w \<and> injections v = injections w \<and> trace v = trace w \<and>
           errorCount v = errorCount w \<and> targetTabId v = targetTabId w \<and>
           executionState v = executionState w"
proof (cases "t \<in> contentScriptReadyTabs w")
  case True
  then show ?thesis by (intro exI[of _ w]) (simp add: executeInTab_def)
next
  case False
  with assms show ?thesis
    by (intro exI[of _ "w\<lparr> readyWaits := Suc (readyWaits w),
                          contentScriptReadyTabs := insert t (contentScriptReadyTabs w) \<rparr>"])
       (simp add: executeInTab_def)
qed

lemma attemptAction_sendMessage:
  assumes "command a = Some cmd" and "\<not> noTargetTab w"
    and "tabId w \<in> contentScriptReadyTabs w \<or> becomesReady E (readyWaits w)"
  shows "\<exists>v. performAction n E a
               (w\<lparr> executionState := (executionState w)
                  \<lparr> currentStep := currentStep (executionState w) + 1,
                    logs := logs (executionState w) @
                      [LogString (''Executing action: '' @ typeName a)] \<rparr> \<rparr>) =
             sendMessage n E (tabId w) cmd v \<and>
           \<not> noTargetTab v \<and> tabId v = tabId w \<and>
           sends v = sends w \<and> injections v = injections w \<and> trace v = trace w \<and>
           errorCount v = errorCount w"
proof -
  let ?w0 = "w\<lparr> executionState := (executionState w)
                  \<lparr> currentStep := currentStep (executionState w) + 1,
                    logs := logs (executionState w) @
                      [LogString (''Executing action: '' @ typeName a)] \<rparr>,
                dispatched := dispatched w @ [a] \<rparr>"
  have "tabId w \<in> contentScriptReadyTabs ?w0 \<or> becomesReady E (readyWaits ?w0)"
    using assms(3) by simp
  from executeInTab_ready[OF this, of n cmd] obtain v where
    v: "executeInTab n E (tabId w) cmd ?w0 = sendMessage n E (tabId w) cmd v"
      "sends v = sends w" "injections v = injections w" "trace v = trace w"
      "errorCount v = errorCount w" "targetTabId v = targetTabId w"
    by auto
  from v(6) assms(2) have "\<not> noTargetTab v" "tabId v = tabId w"
    by (simp_all add: noTargetTab_def tabId_def)
  with v show ?thesis
    by (intro exI[of _ v]) (simp add: performAction_command[OF assms(1)] tabId_def)
qed

lemma attemptAction_resends:
  assumes "command a = Some cmd" and "\<not> noTargetTab w"
    and "tabId w \<in> contentScriptReadyTabs w \<or> becomesReady E (readyWaits w)"
    and "\<forall>i<k. tabsSendMessage E (sends w + i) = ReceivingEndMissing \<and>
               executeScript E (injections w + i) = None"
    and "tabsSendMessage E (sends w + k) \<noteq> ReceivingEndMissing"
  shows "\<exists>w'. attemptAction (Suc k + m) E a w =
       Some (if tabsSendMessage E (sends w + k) = ReplySuccess then Succeeded
             else if errorCount w + 1 < MAX_ERRORS
               then FailedWith (the (replyError (tabsSendMessage E (sends w + k))))
             else BudgetExhausted, w') \<and>
     sends w' = sends w + Suc k \<and>
     count_list (newTrace w w') (SendMessage (tabId w) cmd) = Suc k \<and>
     injections w' = injections w + k \<and>
     errorCount w' =
       (if tabsSendMessage E (sends w + k) = ReplySuccess then 0
        else if errorCount w + 1 < MAX_ERRORS then errorCount w + 1 else 0)"
proof -
  from attemptAction_sendMessage[OF assms(1-3), of "Suc k + m"] obtain v where
    p: "performAction (Suc k + m) E a
               (w\<lparr> executionState := (executionState w)
                  \<lparr> currentStep := currentStep (executionState w) + 1,
                    logs := logs (executionState w) @
                      [LogString (''Executing action: '' @ typeName a)] \<rparr> \<rparr>) =
             sendMessage (Suc k + m) E (tabId w) cmd v"
    and nt: "\<not> noTargetTab v" and v: "tabId v = tabId w" "sends v = sends w"
      "injections v = injections w" "trace v = trace w" "errorCount v = errorCount w"
    by blast
  have h: "\<forall>i<k. tabsSendMessage E (sends v + i) = ReceivingEndMissing \<and>
               executeScript E (injections v + i) = None"
    using assms(4) v by simp
  have l: "tabsSendMessage E (sends v + k) \<noteq> ReceivingEndMissing"
    using assms(5) v by simp
  from sendMessage_resends[OF nt h l, of m "tabId w" cmd] obtain w1 xs where
    a: "sendMessage (Suc k + m) E (tabId w) cmd v =
          Some (replyError (tabsSendMessage E (sends w + k)), w1)"
    and b: "trace w1 = trace w @ xs" and c: "count_list xs (SendMessage (tabId w) cmd) = Suc k"
    and d: "sends w1 = sends w + Suc k" "injections w1 = injections w + k"
       "errorCount w1 = errorCount w"
    using v by auto
  from p a have pa: "performAction (Suc k + m) E a
              (w\<lparr> executionState := (executionState w)
                  \<lparr> currentStep := currentStep (executionState w) + 1,
                    logs := logs (executionState w) @
                      [LogString (''Executing action: '' @ typeName a)] \<rparr> \<rparr>) =
            Some (replyError (tabsSendMessage E (sends w + k)), w1)"
    by simp
  show ?thesis
  proof (cases "tabsSendMessage E (sends w + k)")
    case ReplySuccess
    with pa b c d show ?thesis
      by (simp add: attemptAction_def replyError_def newTrace_def del: count_list.simps)
  next
    case (ReplyFailure x)
    with pa b c d show ?thesis
      by (simp add: attemptAction_def replyError_def newTrace_def stopExecution_def
            MAX_ERRORS_def del: count_list.simps)
  next
    case (LastError x)
    with pa b c d show ?thesis
      by (simp add: attemptAction_def replyError_def newTrace_def stopExecution_def
            MAX_ERRORS_def del: count_list.simps)
  next
    case ReceivingEndMissing
    with assms(5) show ?thesis by simp
  next
    case NoReply
    with pa b c d show ?thesis
      by (simp add: attemptAction_def replyError_def newTrace_def stopExecution_def
            MAX_ERRORS_def del: count_list.simps)
  qed
qed

lemma attemptAction_reinject_fails:
  assumes "command a = Some cmd" and "\<not> noTargetTab w"
    and "tabId w \<in> contentScriptReadyTabs w \<or> becomesReady E (readyWaits w)"
    and "\<forall>i<k. tabsSendMessage E (sends w + i) = ReceivingEndMissing \<and>
               executeScript E (injections w + i) = None"
    and "tabsSendMessage E (sends w + k) = ReceivingEndMissing"
    and "executeScript E (injections w + k) = Some e"
  shows "\<exists>w'. attemptAction (Suc k + m) E a w =
       Some (if errorCount w + 1 < MAX_ERRORS then FailedWith e else BudgetExhausted, w') \<and>
     sends w' = sends w + Suc k \<and>
     count_list (newTrace w w') (SendMessage (tabId w) cmd) = Suc k \<and>
     injections w' = injections w + Suc k \<and>
     errorCount w' = (if errorCount w + 1 < MAX_ERRORS then errorCount w + 1 else 0)"
proof -
  from attemptAction_sendMessage[OF assms(1-3), of "Suc k + m"] obtain v where
    p: "performAction (Suc k + m) E a
               (w\<lparr> executionState := (executionState w)
                  \<lparr> currentStep := currentStep (executionState w) + 1,
                    logs := logs (executionState w) @
                      [LogString (''Executing action: '' @ typeName a)] \<rparr> \<rparr>) =
             sendMessage (Suc k + m) E (tabId w) cmd v"
    and nt: "\<not> noTargetTab v" and v: "tabId v = tabId w" "sends v = sends w"
      "injections v = injections w" "trace v = trace w" "errorCount v = errorCount w"
    by blast
  have h: "\<forall>i<k. tabsSendMessage E (sends v + i) = ReceivingEndMissing \<and>
               executeScript E (injections v + i) = None"
    using assms(4) v by simp
  have l: "tabsSendMessage E (sends v + k) = ReceivingEndMissing"
    "executeScript E (injections v + k) = Some e"
    using assms(5,6) v by simp_all
  from sendMessage_reinject_fails[OF nt h l, of m "tabId w" cmd] obtain w1 xs where
    a: "sendMessage (Suc k + m) E (tabId w) cmd v = Some (Some e, w1)"
    and b: "trace w1 = trace w @ xs" and c: "count_list xs (SendMessage (tabId w) cmd) = Suc k"
    and d: "sends w1 = sends w + Suc k" "injections w1 = injections w + Suc k"
       "errorCount w1 = errorCount w"
    using v by auto
  from p a b c d show ?thesis
    by (simp add: attemptAction_def newTrace_def stopExecution_def MAX_ERRORS_def
          del: count_list.simps)
qed

lemma attemptAction_never_returns:
  assumes "command a = Some cmd" and "\<not> noTargetTab w"
    and "tabId w \<in> contentScriptReadyTabs w \<or> becomesReady E (readyWaits w)"
    and "\<forall>i. tabsSendMessage E (sends w + i) = ReceivingEndMissing \<and>
             executeScript E (injections w + i) = None"
  shows "attemptAction m E a w = None"
proof -
  from attemptAction_sendMessage[OF assms(1-3), of m] obtain v where
    p: "performAction m E a
               (w\<lparr> executionState := (executionState w)
                  \<lparr> currentStep := currentStep (executionState w) + 1,
                    logs := logs (executionState w) @
                      [LogString (''Executing action: '' @ typeName a)] \<rparr> \<rparr>) =
             sendMessage m E (tabId w) cmd v"
    and nt: "\<not> noTargetTab v" and v: "sends v = sends w" "injections v = injections w"
    by blast
  have h: "\<forall>i. tabsSendMessage E (sends v + i) = ReceivingEndMissing \<and>
               executeScript E (injections v + i) = None"
    using assms(4) v by simp
  from sendMessage_never_returns[OF nt h, of m "tabId w" cmd] p
  show ?thesis by (simp add: attemptAction_def)
qed

lemma attemptAction_not_ready:
  assumes "command a = Some cmd"
    and "tabId w \<notin> contentScriptReadyTabs w" and "\<not> becomesReady E (readyWaits w)"
  shows "\<exists>w'. attemptAction m E a w =
       Some (if errorCount w + 1 < MAX_ERRORS
               then FailedWith ''Content script did not become ready in time''
             else BudgetExhausted, w') \<and>
     sends w' = sends w \<and> newTrace w w' = [TimerFired 5000] \<and>
     injections w' = injections w \<and>
     errorCount w' = (if errorCount w + 1 < MAX_ERRORS then errorCount w + 1 else 0)"
  using assms(2,3)
  by (simp add: attemptAction_def performAction_command[OF assms(1)] executeInTab_def tabId_def
        emit_def newTrace_def stopExecution_def MAX_ERRORS_def)

lemma retryLoop2_unroll:
  "retryLoop2 E a 0 w =
     (case attemptOnce2 E a w of
        (None, w1) \<Rightarrow> (None, w1)
      | (Some e1, w1) \<Rightarrow>
          (case attemptOnce2 E a (snd (reinjectContentScript2 E (emit (Sleep 1000) w1))) of
             (None, w2) \<Rightarrow> (None, w2)
           | (Some e2, w2) \<Rightarrow>
               attemptOnce2 E a (snd (reinjectContentScript2 E (emit (Sleep 1000) w2)))))"
  by (simp add: retryLoop2.simps[of E a 0] retryLoop2.simps[of E a "Suc 0"]
        retryLoop2.simps[of E a "Suc (Suc 0)"] maxAttempts_def eval_nat_numeral
        del: retryLoop2.simps split: prod.splits option.splits)

lemma tabId_executeInTab2: "executeInTab2 E t c w = (r, w1) \<Longrightarrow> tabId w1 = tabId w"
  by (auto simp: executeInTab2_def noteTimeout_def emit_def tabId_def)

lemma tabId_reinject2: "tabId (snd (reinjectContentScript2 E w)) = tabId w"
  by (auto simp: reinjectContentScript2_def Let_def executeInTab2_def noteTimeout_def emit_def
        tabId_def split: option.splits)

lemma tabId_emit: "tabId (emit e w) = tabId w"
  by (simp add: tabId_def emit_def)

lemma executeAction2_unrolled:
  assumes "command a = Some cmd" and "\<not> noTargetTab w"
  shows "executeAction2 E a w =
     (case executeInTab2 E (tabId w) cmd
             (appendLog E LInfo (getActionDescription E a)
                (updateExecutionState (\<lambda>s. s\<lparr> currentAction := Some a \<rparr>) w)) of
        (None, w1) \<Rightarrow> (None, w1)
      | (Some e1, w1) \<Rightarrow>
          (case executeInTab2 E (tabId w) cmd
                  (snd (reinjectContentScript2 E (emit (Sleep 1000) w1))) of
             (None, w2) \<Rightarrow> (None, w2)
           | (Some e2, w2) \<Rightarrow>
               executeInTab2 E (tabId w) cmd
                 (snd (reinjectContentScript2 E (emit (Sleep 1000) w2)))))"
proof -
  let ?L = "appendLog E LInfo (getActionDescription E a)
                (updateExecutionState (\<lambda>s. s\<lparr> currentAction := Some a \<rparr>) w)"
  have tl: "tabId ?L = tabId w"
    using logged_fields[of E LInfo "getActionDescription E a" _ w] by (simp add: tabId_def)
  obtain e1 w1 where 1: "executeInTab2 E (tabId w) cmd ?L = (e1, w1)"
    by (cases "executeInTab2 E (tabId w) cmd ?L")
  let ?X1 = "snd (reinjectContentScript2 E (emit (Sleep 1000) w1))"
  have t1: "tabId ?X1 = tabId w"
    using tabId_executeInTab2[OF 1] by (simp add: tabId_reinject2 tabId_emit tl)
  obtain e2 w2 where 2: "executeInTab2 E (tabId w) cmd ?X1 = (e2, w2)"
    by (cases "executeInTab2 E (tabId w) cmd ?X1")
  let ?X2 = "snd (reinjectContentScript2 E (emit (Sleep 1000) w2))"
  have t2: "tabId ?X2 = tabId w"
    using tabId_executeInTab2[OF 2] tabId_executeInTab2[OF 1]
    by (simp add: tabId_reinject2 tabId_emit tl)
  show ?thesis
    unfolding executeAction2_retry[OF assms] retryLoop2_unroll attemptOnce2_command[OF assms(1)]
    by (cases e1; cases e2) (simp_all add: tl 1 t1 2 t2)
qed

lemma executeAction2_first_success:
  assumes "command a = Some cmd" and "\<not> noTargetTab w"
    and "tabsSendMessage E (sends w) = ReplySuccess"
  shows "\<exists>w'. executeAction2 E a w = (None, w') \<and>
           newTrace w w' = [SendMessage (tabId w) cmd] \<and>
           sends w' = Suc (sends w) \<and> injections w' = injections w"
  using assms(3) logged_fields[of E LInfo "getActionDescription E a" _ w]
  unfolding executeAction2_unrolled[OF assms(1,2)]
  by (simp add: executeInTab2_def replyError_def noteTimeout_def emit_def newTrace_def)

text \<open>
  C2, as the code has it. \<open>a\<close> is a Click, Type, Submit, Scroll or Hover action and the
  service has a target tab.

  Earlier revision (\<open>executeAction2\<close>, which has the retry loop and no error budget):
  the command is sent at least once and at most 3 times; each attempt but the last one
  made is followed by a one second wait and one re-injection of the content script; an
  error is thrown to the caller only after the third attempt, and the outcome is that of
  the last attempt made; \<open>errorCount\<close> is not touched. The loop ends with the first
  attempt that succeeds: the call is the first attempt; only if that failed, the wait,
  the re-injection and the second attempt; only if that failed too, the same again and
  the third attempt, whose outcome is the call's. So a command that is answered with
  success at once is sent once, with no wait and no re-injection.

  Later revision (\<open>attemptAction\<close>, the dispatch inside \<open>executeAction\<close>, which has the
  error budget and no retry loop). A tab not known as ready is waited for first, and
  when it does not report ready within 5 seconds the dispatch fails without sending
  anything. Otherwise the command is sent, and sent again after each reply
  \<open>Receiving end does not exist\<close> whose re-injection succeeds, and nothing bounds
  that: after \<open>k\<close> such replies the dispatch has sent the command
  \<open>k + 1\<close> times and injected the content script \<open>k\<close> times, and its outcome is that
  of the last reply; when the re-injection after such a reply fails, the dispatch fails
  with that error; when every reply is of that kind and every re-injection succeeds,
  the dispatch does not return. With a content script that answers (\<open>k = 0\<close>) the
  command is sent exactly once without re-injection. A success sets the counter to 0;
  a failure adds 1 to it, or resets it to 0 when that reaches the maximum of 5.
\<close>

theorem retry_or_budget:
  assumes "command a = Some cmd" and "\<not> noTargetTab w"
  shows "(\<forall>res w'. executeAction2 E a w = (res, w') \<longrightarrow>
       1 \<le> count_list (newTrace w w') (SendMessage (tabId w) cmd) \<and>
       count_list (newTrace w w') (SendMessage (tabId w) cmd) \<le> 3 \<and>
       (res \<noteq> None \<longrightarrow> count_list (newTrace w w') (SendMessage (tabId w) cmd) = 3) \<and>
       count_list (newTrace w w') (Sleep 1000) + 1 =
         count_list (newTrace w w') (SendMessage (tabId w) cmd) \<and>
       injections w' + 1 = injections w + count_list (newTrace w w') (SendMessage (tabId w) cmd) \<and>
       res = replyError (tabsSendMessage E (sends w' - 1)) \<and>
       errorCount w' = errorCount w) \<and>
     executeAction2 E a w =
       (case executeInTab2 E (tabId w) cmd
               (appendLog E LInfo (getActionDescription E a)
                  (updateExecutionState (\<lambda>s. s\<lparr> currentAction := Some a \<rparr>) w)) of
          (None, w1) \<Rightarrow> (None, w1)
        | (Some e1, w1) \<Rightarrow>
            (case executeInTab2 E (tabId w) cmd
                    (snd (reinjectContentScript2 E (emit (Sleep 1000) w1))) of
               (None, w2) \<Rightarrow> (None, w2)
             | (Some e2, w2) \<Rightarrow>
                 executeInTab2 E (tabId w) cmd
                   (snd (reinjectContentScript2 E (emit (Sleep 1000) w2))))) \<and>
     (tabsSendMessage E (sends w) = ReplySuccess \<longrightarrow>
        (\<exists>w'. executeAction2 E a w = (None, w') \<and>
           newTrace w w' = [SendMessage (tabId w) cmd] \<and>
           sends w' = Suc (sends w) \<and> injections w' = injections w)) \<and>
     (tabId w \<in> contentScriptReadyTabs w \<or> becomesReady E (readyWaits w) \<longrightarrow>
        (\<forall>k. (\<forall>i<k. tabsSendMessage E (sends w + i) = ReceivingEndMissing \<and>
                    executeScript E (injections w + i) = None) \<longrightarrow>
           (tabsSendMessage E (sends w + k) \<noteq> ReceivingEndMissing \<longrightarrow>
              (\<exists>w'. attemptAction (Suc k + m) E a w =
                 Some (if tabsSendMessage E (sends w + k) = ReplySuccess then Succeeded
                       else if errorCount w + 1 < MAX_ERRORS
                         then FailedWith (the (replyError (tabsSendMessage E (sends w + k))))
                       else BudgetExhausted, w') \<and>
               sends w' = sends w + Suc k \<and>
               count_list (newTrace w w') (SendMessage (tabId w) cmd) = Suc k \<and>
               injections w' = injections w + k \<and>
               errorCount w' =
                 (if tabsSendMessage E (sends w + k) = ReplySuccess then 0
                  else if errorCount w + 1 < MAX_ERRORS then errorCount w + 1 else 0))) \<and>
           (\<forall>e. tabsSendMessage E (sends w + k) = ReceivingEndMissing \<and>
                executeScript E (injections w + k) = Some e \<longrightarrow>
              (\<exists>w'. attemptAction (Suc k + m) E a w =
                 Some (if errorCount w + 1 < MAX_ERRORS then FailedWith e
                       else BudgetExhausted, w') \<and>
               sends w' = sends w + Suc k \<and>
               count_list (newTrace w w') (SendMessage (tabId w) cmd) = Suc k \<and>
               injections w' = injections w + Suc k \<and>
               errorCount w' =
                 (if errorCount w + 1 < MAX_ERRORS then errorCount w + 1 else 0)))) \<and>
        ((\<forall>i. tabsSendMessage E (sends w + i) = ReceivingEndMissing \<and>
              executeScript E (injections w + i) = None) \<longrightarrow>
           attemptAction m E a w = None)) \<and>
     (tabId w \<notin> contentScriptReadyTabs w \<and> \<not> becomesReady E (readyWaits w) \<longrightarrow>
        (\<exists>w'. attemptAction m E a w =
           Some (if errorCount w + 1 < MAX_ERRORS
                   then FailedWith ''Content script did not become ready in time''
                 else BudgetExhausted, w') \<and>
         sends w' = sends w \<and> newTrace w w' = [TimerFired 5000] \<and>
         injections w' = injections w \<and>
         errorCount w' = (if errorCount w + 1 < MAX_ERRORS then errorCount w + 1 else 0)))"
proof -
  note b1 = executeAction2_attempts[OF assms]
  note b2 = executeAction2_unrolled[OF assms, of E]
  note b3 = executeAction2_first_success[OF assms, of E]
  note a1 = attemptAction_resends[OF assms, where E = E and m = m]
  note a2 = attemptAction_reinject_fails[OF assms, where E = E and m = m]
  note a3 = attemptAction_never_returns[OF assms, where E = E and m = m]
  note a4 = attemptAction_not_ready[OF assms(1), where w = w and E = E and m = m]
  show ?thesis
    apply (intro conjI allI impI)
    subgoal for res w' using b1[of E res w'] by simp
    subgoal for res w' using b1[of E res w'] by simp
    subgoal for res w' using b1[of E res w'] by simp
    subgoal for res w' using b1[of E res w'] by simp
    subgoal for res w' using b1[of E res w'] by simp
    subgoal for res w' using b1[of E res w'] by simp
    subgoal for res w' using b1[of E res w'] by simp
    subgoal by (rule b2)
    subgoal by (rule b3)
    subgoal for k by (rule a1)
    subgoal for k e by (rule a2) simp_all
    subgoal by (rule a3)
    subgoal by (rule a4) simp_all
    done
qed

theorem retry_or_budget_witness:
  "command (Click ''#go'') = Some ''click'' \<and> \<not> noTargetTab readyService \<and>
   fst (executeAction2 deadScripts (Click ''#go'') readyService) = Some ''Action failed'' \<and>
   count_list (newTrace readyService (snd (executeAction2 deadScripts (Click ''#go'') readyService)))
     (SendMessage 1 ''click'') = 3 \<and>
   count_list (newTrace readyService (snd (executeAction2 deadScripts (Click ''#go'') readyService)))
     (Sleep 1000) = 2 \<and>
   injections (snd (executeAction2 deadScripts (Click ''#go'') readyService)) = 2 \<and>
   tabsSendMessage workingScripts (sends readyService) = ReplySuccess \<and>
   (\<exists>w'. executeAction2 workingScripts (Click ''#go'') readyService = (None, w') \<and>
         newTrace readyService w' = [SendMessage 1 ''click''] \<and> injections w' = 0) \<and>
   1 \<in> contentScriptReadyTabs readyService \<and>
   (\<exists>w'. attemptAction 1 deadScripts (Click ''#go'') readyService =
            Some (FailedWith ''Action failed'', w') \<and>
         sends w' = 1 \<and> injections w' = 0 \<and> errorCount w' = 1) \<and>
   (\<exists>w'. attemptAction 10 missingScripts (Click ''#go'') readyService = Some (Succeeded, w') \<and>
         sends w' = 5 \<and> injections w' = 4 \<and>
         count_list (newTrace readyService w') (SendMessage 1 ''click'') = 5 \<and>
         errorCount w' = 0) \<and>
   (\<exists>w'. attemptAction 1 blockedScripts (Click ''#go'') readyService =
            Some (FailedWith ''Cannot access contents of the page'', w') \<and>
         sends w' = 1 \<and> injections w' = 1 \<and> errorCount w' = 1) \<and>
   attemptAction 7 absentScripts (Click ''#go'') readyService = None \<and>
   (\<exists>w'. attemptAction 0 deadScripts (Click ''#go'')
            (readyService\<lparr> contentScriptReadyTabs := {} \<rparr>) =
            Some (FailedWith ''Content script did not become ready in time'', w') \<and>
         sends w' = 0 \<and> errorCount w' = 1)"
proof -
  have c: "command (Click ''#go'') = Some ''click''" by simp
  have nt: "\<not> noTargetTab readyService"
    by (simp add: noTargetTab_def readyService_def newBackgroundService_def)
  have tid: "tabId readyService = 1"
    by (simp add: tabId_def readyService_def newBackgroundService_def)
  have rdy: "tabId readyService \<in> contentScriptReadyTabs readyService"
    by (simp add: tabId_def readyService_def newBackgroundService_def)
  have rep: "\<And>k. tabsSendMessage deadScripts k = ReplyFailure None"
    by (simp add: deadScripts_def)
  have re: "\<And>k. replyError (tabsSendMessage deadScripts k) = Some ''Action failed''"
    by (simp add: rep replyError_def reasonOr_def)
  have z: "injections readyService = 0" "sends readyService = 0" "errorCount readyService = 0"
    by (simp_all add: readyService_def newBackgroundService_def)
  have wk: "tabsSendMessage workingScripts (sends readyService) = ReplySuccess"
    by (simp add: workingScripts_def)
  have ms: "\<forall>i<4. tabsSendMessage missingScripts (sends readyService + i) = ReceivingEndMissing \<and>
                   executeScript missingScripts (injections readyService + i) = None"
    "tabsSendMessage missingScripts (sends readyService + 4) = ReplySuccess"
    by (simp_all add: missingScripts_def deadScripts_def z)
  note th = retry_or_budget[OF c nt, of deadScripts 0]
  from th have b: "\<forall>res w'. executeAction2 deadScripts (Click ''#go'') readyService = (res, w') \<longrightarrow>
       (res \<noteq> None \<longrightarrow>
          count_list (newTrace readyService w') (SendMessage (tabId readyService) ''click'') = 3) \<and>
       count_list (newTrace readyService w') (Sleep 1000) + 1 =
         count_list (newTrace readyService w') (SendMessage (tabId readyService) ''click'') \<and>
       injections w' + 1 = injections readyService +
         count_list (newTrace readyService w') (SendMessage (tabId readyService) ''click'') \<and>
       res = replyError (tabsSendMessage deadScripts (sends w' - 1))"
    by blast
  obtain res w' where ex: "executeAction2 deadScripts (Click ''#go'') readyService = (res, w')"
    by (cases "executeAction2 deadScripts (Click ''#go'') readyService")
  from b ex re have r1: "res = Some ''Action failed''" by simp
  from b ex r1 have r2: "count_list (newTrace readyService w') (SendMessage 1 ''click'') = 3"
    by (simp add: tid)
  from b ex r2 have r3: "count_list (newTrace readyService w') (Sleep 1000) = 2"
    "injections w' = 2"
    by (simp_all add: tid z)
  from retry_or_budget[OF c nt, of workingScripts 0]
  have "tabsSendMessage workingScripts (sends readyService) = ReplySuccess \<longrightarrow>
        (\<exists>w'. executeAction2 workingScripts (Click ''#go'') readyService = (None, w') \<and>
           newTrace readyService w' = [SendMessage (tabId readyService) ''click''] \<and>
           sends w' = Suc (sends readyService) \<and> injections w' = injections readyService)"
    by blast
  with wk have s: "\<exists>w'. executeAction2 workingScripts (Click ''#go'') readyService = (None, w') \<and>
         newTrace readyService w' = [SendMessage 1 ''click''] \<and> injections w' = 0"
    by (auto simp: tid z)
  from th rdy have k0: "(\<forall>i<0. tabsSendMessage deadScripts (sends readyService + i) = ReceivingEndMissing \<and>
                    executeScript deadScripts (injections readyService + i) = None) \<longrightarrow>
           (tabsSendMessage deadScripts (sends readyService + 0) \<noteq> ReceivingEndMissing \<longrightarrow>
              (\<exists>w'. attemptAction (Suc 0 + 0) deadScripts (Click ''#go'') readyService =
                 Some (if tabsSendMessage deadScripts (sends readyService + 0) = ReplySuccess then Succeeded
                       else if errorCount readyService + 1 < MAX_ERRORS
                         then FailedWith (the (replyError (tabsSendMessage deadScripts (sends readyService + 0))))
                       else BudgetExhausted, w') \<and>
               sends w' = sends readyService + Suc 0 \<and>
               count_list (newTrace readyService w') (SendMessage (tabId readyService) ''click'') = Suc 0 \<and>
               injections w' = injections readyService + 0 \<and>
               errorCount w' =
                 (if tabsSendMessage deadScripts (sends readyService + 0) = ReplySuccess then 0
                  else if errorCount readyService + 1 < MAX_ERRORS then errorCount readyService + 1 else 0)))"
    by blast
  have a: "\<exists>w'. attemptAction 1 deadScripts (Click ''#go'') readyService =
            Some (FailedWith ''Action failed'', w') \<and> sends w' = 1 \<and> injections w' = 0 \<and>
            errorCount w' = 1"
    using k0 by (auto simp: rep replyError_def reasonOr_def z MAX_ERRORS_def)
  from retry_or_budget[OF c nt, of missingScripts 5] rdy
  have k4: "(\<forall>i<4. tabsSendMessage missingScripts (sends readyService + i) = ReceivingEndMissing \<and>
                    executeScript missingScripts (injections readyService + i) = None) \<longrightarrow>
           (tabsSendMessage missingScripts (sends readyService + 4) \<noteq> ReceivingEndMissing \<longrightarrow>
              (\<exists>w'. attemptAction (Suc 4 + 5) missingScripts (Click ''#go'') readyService =
                 Some (if tabsSendMessage missingScripts (sends readyService + 4) = ReplySuccess then Succeeded
                       else if errorCount readyService + 1 < MAX_ERRORS
                         then FailedWith (the (replyError (tabsSendMessage missingScripts (sends readyService + 4))))
                       else BudgetExhausted, w') \<and>
               sends w' = sends readyService + Suc 4 \<and>
               count_list (newTrace readyService w') (SendMessage (tabId readyService) ''click'') = Suc 4 \<and>
               injections w' = injections readyService + 4 \<and>
               errorCount w' =
                 (if tabsSendMessage missingScripts (sends readyService + 4) = ReplySuccess then 0
                  else if errorCount readyService + 1 < MAX_ERRORS then errorCount readyService + 1 else 0)))"
    by blast
  have m: "\<exists>w'. attemptAction 10 missingScripts (Click ''#go'') readyService = Some (Succeeded, w') \<and>
         sends w' = 5 \<and> injections w' = 4 \<and>
         count_list (newTrace readyService w') (SendMessage 1 ''click'') = 5 \<and>
         errorCount w' = 0"
    using k4 ms by (auto simp: z tid)
  have bl: "tabsSendMessage blockedScripts (sends readyService + 0) = ReceivingEndMissing \<and>
            executeScript blockedScripts (injections readyService + 0) =
              Some ''Cannot access contents of the page''"
    by (simp add: blockedScripts_def absentScripts_def deadScripts_def)
  from retry_or_budget[OF c nt, of blockedScripts 0] rdy
  have kb: "(\<forall>i<0. tabsSendMessage blockedScripts (sends readyService + i) = ReceivingEndMissing \<and>
                    executeScript blockedScripts (injections readyService + i) = None) \<longrightarrow>
           (\<forall>e. tabsSendMessage blockedScripts (sends readyService + 0) = ReceivingEndMissing \<and>
                executeScript blockedScripts (injections readyService + 0) = Some e \<longrightarrow>
              (\<exists>w'. attemptAction (Suc 0 + 0) blockedScripts (Click ''#go'') readyService =
                 Some (if errorCount readyService + 1 < MAX_ERRORS then FailedWith e
                       else BudgetExhausted, w') \<and>
               sends w' = sends readyService + Suc 0 \<and>
               count_list (newTrace readyService w') (SendMessage (tabId readyService) ''click'') = Suc 0 \<and>
               injections w' = injections readyService + Suc 0 \<and>
               errorCount w' =
                 (if errorCount readyService + 1 < MAX_ERRORS then errorCount readyService + 1 else 0)))"
    by blast
  have f: "\<exists>w'. attemptAction 1 blockedScripts (Click ''#go'') readyService =
            Some (FailedWith ''Cannot access contents of the page'', w') \<and>
         sends w' = 1 \<and> injections w' = 1 \<and> errorCount w' = 1"
    using kb[rule_format, OF _ bl] by (auto simp: z MAX_ERRORS_def)
  have ab: "\<forall>i. tabsSendMessage absentScripts (sends readyService + i) = ReceivingEndMissing \<and>
                executeScript absentScripts (injections readyService + i) = None"
    by (simp add: absentScripts_def deadScripts_def)
  from retry_or_budget[OF c nt, of absentScripts 7] rdy ab
  have g: "attemptAction 7 absentScripts (Click ''#go'') readyService = None"
    by blast
  have nt': "\<not> noTargetTab (readyService\<lparr> contentScriptReadyTabs := {} \<rparr>)"
    by (simp add: noTargetTab_def readyService_def newBackgroundService_def)
  have nr: "tabId (readyService\<lparr> contentScriptReadyTabs := {} \<rparr>) \<notin>
              contentScriptReadyTabs (readyService\<lparr> contentScriptReadyTabs := {} \<rparr>) \<and>
            \<not> becomesReady deadScripts (readyWaits (readyService\<lparr> contentScriptReadyTabs := {} \<rparr>))"
    by (simp add: deadScripts_def)
  from retry_or_budget[OF c nt', of deadScripts 0] nr
  have "\<exists>w'. attemptAction 0 deadScripts (Click ''#go'')
              (readyService\<lparr> contentScriptReadyTabs := {} \<rparr>) =
           Some (if errorCount (readyService\<lparr> contentScriptReadyTabs := {} \<rparr>) + 1 < MAX_ERRORS
                   then FailedWith ''Content script did not become ready in time''
                 else BudgetExhausted, w') \<and>
         sends w' = sends (readyService\<lparr> contentScriptReadyTabs := {} \<rparr>) \<and>
         newTrace (readyService\<lparr> contentScriptReadyTabs := {} \<rparr>) w' = [TimerFired 5000] \<and>
         injections w' = injections (readyService\<lparr> contentScriptReadyTabs := {} \<rparr>) \<and>
         errorCount w' =
           (if errorCount (readyService\<lparr> contentScriptReadyTabs := {} \<rparr>) + 1 < MAX_ERRORS
            then errorCount (readyService\<lparr> contentScriptReadyTabs := {} \<rparr>) + 1 else 0)"
    by blast
  then have q: "\<exists>w'. attemptAction 0 deadScripts (Click ''#go'')
            (readyService\<lparr> contentScriptReadyTabs := {} \<rparr>) =
            Some (FailedWith ''Content script did not become ready in time'', w') \<and>
         sends w' = 0 \<and> errorCount w' = 1"
    by (auto simp: z MAX_ERRORS_def)
  from c nt ex r1 r2 r3 wk s rdy a m f g q show ?thesis
    by (simp add: tid)
qed

text \<open>
  C2 as stated fails in the revision that has the error budget: with an executor that
  fails its first two commands and succeeds on the third, dispatching a click makes one
  attempt, records the failure and leaves the counter at 1.
\<close>

theorem single_attempt_counts_failure:
  "map_option (\<lambda>(r, w). (r, errorCount w, sends w, lastActionResult w))
     (executeAction 1 flakyScripts (Click ''#go'') runningService) =
     Some (None, 1, 1, \<lparr> success = False, ar_error = Some ''Action failed'' \<rparr>)"
  by (simp add: eval_defs)

section \<open>Stopping\<close>

text \<open>
  C5, as the code has it. \<open>stopExecution\<close> sets the status to \<open>idle\<close> from any state;
  no function of either revision assigns \<open>stopped\<close>. In the later revision it also
  resets the error counter and changes nothing else (the task, the logs, the last page
  state and the pending timer stay), so a second call changes nothing. In the earlier
  revision it clears the task and the last page state, sets the step counter to 0 and
  appends the entry \<open>Task execution stopped by user\<close> on every call, so a second call
  adds a second entry.
\<close>

theorem stop_effects:
  "stopExecution (stopExecution w) = stopExecution w \<and>
   status (executionState (stopExecution w)) = StIdle \<and>
   errorCount (stopExecution w) = 0 \<and>
   currentTask (stopExecution w) = currentTask w \<and>
   lastPageState (stopExecution w) = lastPageState w \<and>
   pageStateUpdateTimeout (stopExecution w) = pageStateUpdateTimeout w \<and>
   currentStep (executionState (stopExecution w)) = currentStep (executionState w) \<and>
   logs (executionState (stopExecution w)) = logs (executionState w) \<and>
   status (executionState (stopExecution2 E w)) = StIdle \<and>
   currentTask (stopExecution2 E w) = None \<and>
   lastPageState (stopExecution2 E w) = None \<and>
   currentStep (executionState (stopExecution2 E w)) = 0 \<and>
   logs (executionState (stopExecution2 E w)) =
     logs (executionState w) @
       [LogObject LInfo ''Task execution stopped by user'' (clock E (clockReads w))] \<and>
   logs (executionState (stopExecution2 E (stopExecution2 E w))) =
     logs (executionState w) @
       [LogObject LInfo ''Task execution stopped by user'' (clock E (clockReads w)),
        LogObject LInfo ''Task execution stopped by user'' (clock E (Suc (clockReads w)))]"
  by (simp add: stopExecution_def stopExecution2_def tick_def nowISO_def)

text \<open>
  C5 as stated fails: after a stop the status is \<open>idle\<close>, not \<open>stopped\<close>; the later
  revision keeps the task and logs nothing; the earlier revision logs on each call, so
  two calls differ from one, and a call in the idle state is not a no-op.
\<close>

theorem stop_is_idle_and_logs_twice:
  "status (executionState (stopExecution runningService)) = StIdle \<and>
   currentTask (stopExecution runningService) = Some ''old task'' \<and>
   logs (executionState (stopExecution runningService)) = [] \<and>
   status (executionState (stopExecution2 deadScripts runningService)) = StIdle \<and>
   length (logs (executionState (stopExecution2 deadScripts runningService))) = 1 \<and>
   length (logs (executionState (stopExecution2 deadScripts
             (stopExecution2 deadScripts runningService)))) = 2 \<and>
   stopExecution2 deadScripts (stopExecution2 deadScripts runningService) \<noteq>
     stopExecution2 deadScripts runningService \<and>
   stopExecution2 deadScripts (stopExecution readyService) \<noteq> stopExecution readyService"
  by (simp add: stopExecution_def stopExecution2_def tick_def nowISO_def runningService_def
        readyService_def newBackgroundService_def initialExecutionState_def deadScripts_def)

section \<open>Starting a task\<close>




section \<open>The error budget\<close>

text \<open>
  C1 on an executor that always fails. The fifth failed dispatch ends the loop: five
  commands and five decision calls are made, not a sixth, and a page state delivered
  later causes none. But \<open>executeAction\<close> assigns \<open>failed\<close> and then calls
  \<open>stopExecution\<close>, which assigns \<open>idle\<close> and keeps the task: the run ends with status
  \<open>idle\<close> and the task still set.
\<close>

theorem budget_trip_ends_idle_with_task:
  "\<exists>w w'. handleNewTask (6 + n) failingScripts ''find it'' readyService = Some w \<and>
     status (executionState w) = StIdle \<and> currentTask w = Some ''find it'' \<and>
     errorCount w = 0 \<and> currentStep (executionState w) = 5 \<and>
     sends w = 5 \<and> aiCalls w = 5 \<and>
     last (logs (executionState w)) = LogString ''Task failed due to too many errors.'' \<and>
     run (6 + n) failingScripts [(0, Received (PAGE_STATE_UPDATE pageA)), (1000, Received OtherMessage)] w = Some w' \<and>
     received w' = [pageA] \<and> sends w' = 5 \<and> aiCalls w' = 5"
  by (simp add: eval_defs eval_nat_numeral)

section \<open>Navigation\<close>

text \<open>
  C6, as the code has it. A NAVIGATE whose load signal does not arrive before the timer
  (15 s in the later revision, 10 s in the earlier one) fails with
  \<open>Navigation timeout\<close> after one \<open>chrome.tabs.update\<close> and nothing else: no retry. In
  the later revision the failure adds 1 to the error counter when that stays below the
  maximum of 5; as the fifth failure in a row it exhausts the budget, which resets the
  counter to 0. The earlier revision throws the error and has no counter.
\<close>

theorem navigation_timeout_counts_once:
  assumes "\<not> noTargetTab w" and "tabsUpdate E (navigations w) = NoLoadSignal"
  shows "(\<exists>w'. attemptAction n E (Navigate u) w =
            Some (if errorCount w + 1 < MAX_ERRORS then FailedWith ''Navigation timeout''
                  else BudgetExhausted, w') \<and>
          errorCount w' = (if errorCount w + 1 < MAX_ERRORS then errorCount w + 1 else 0) \<and>
          navigations w' = Suc (navigations w) \<and>
          newTrace w w' = [TabsUpdate (tabId w) u, TimerFired 15000]) \<and>
         fst (executeAction2 E (Navigate u) w) = Some ''Navigation timeout'' \<and>
         navigations (snd (executeAction2 E (Navigate u) w)) = Suc (navigations w) \<and>
         newTrace w (snd (executeAction2 E (Navigate u) w)) =
           [TabsUpdate (tabId w) u, TimerFired 10000] \<and>
         errorCount (snd (executeAction2 E (Navigate u) w)) = errorCount w"
  using assms
  by (simp add: attemptAction_def performAction_def navigate_def executeAction2_def navigate2_def
        Let_def emit_def newTrace_def stopExecution_def MAX_ERRORS_def noTargetTab_def tabId_def
        appendLog_def updateExecutionState_def tick_def)

theorem navigation_timeout_counts_once_witness:
  "\<not> noTargetTab runningService \<and>
   tabsUpdate deadScripts (navigations runningService) = NoLoadSignal \<and>
   (\<exists>w'. attemptAction 1 deadScripts (Navigate ''https://a.example'') runningService =
            Some (FailedWith ''Navigation timeout'', w') \<and>
          errorCount w' = 1 \<and> navigations w' = 1 \<and>
          newTrace runningService w' = [TabsUpdate 1 ''https://a.example'', TimerFired 15000]) \<and>
   fst (executeAction2 deadScripts (Navigate ''https://a.example'') runningService) =
     Some ''Navigation timeout''"
proof -
  have a: "\<not> noTargetTab runningService"
    by (simp add: noTargetTab_def runningService_def readyService_def newBackgroundService_def)
  have b: "tabsUpdate deadScripts (navigations runningService) = NoLoadSignal"
    by (simp add: deadScripts_def)
  have z: "errorCount runningService = 0" "navigations runningService = 0"
    "tabId runningService = 1"
    by (simp_all add: tabId_def runningService_def readyService_def newBackgroundService_def)
  from navigation_timeout_counts_once[OF a b, of 1 "''https://a.example''"] a b z
  show ?thesis by (simp add: MAX_ERRORS_def)
qed

text \<open>
  C6 as stated fails after four failures in a row: the navigation timeout leaves the
  counter at 0, not at 5.
\<close>

theorem fifth_navigation_timeout_resets_counter:
  "errorCount (runningService\<lparr> errorCount := 4 \<rparr>) = 4 \<and>
   map_option (\<lambda>(r, w). (r, errorCount w, status (executionState w)))
     (attemptAction 1 deadScripts (Navigate ''https://a.example'')
        (runningService\<lparr> errorCount := 4 \<rparr>)) =
   Some (BudgetExhausted, 0, StIdle)"
  by (simp add: eval_defs)


text \<open>
  What the listeners add to this: a navigation that timed out leaves its listener
  registered, so that a later \<open>complete\<close> of the target tab still waits and re-injects;
  and in the earlier revision, whose timer runs during the listener's steps, a
  navigation whose tab reported \<open>complete\<close> in time can still end in
  \<open>Navigation timeout\<close>, with the content script injected.
\<close>

lemma timed_out_navigation_leaves_listener:
  assumes "\<not> noTargetTab w" and "tabsUpdate E (navigations w) = NoLoadSignal"
    and "navListeners w = 0"
  shows "navListeners (snd (navigate E u w)) = 1 \<and>
         injections (snd (navigate E u w)) = injections w \<and>
         injections (tabComplete E (tabId w) (snd (navigate E u w))) = Suc (injections w) \<and>
         navListeners (tabComplete E (tabId w) (snd (navigate E u w))) = 0"
  using assms
  by (auto simp: navigate_def Let_def emit_def tabComplete_def onUpdatedListener_def
        reinjectContentScript_def noTargetTab_def tabId_def split: option.splits)

lemma loaded_navigation2_can_time_out:
  assumes "\<not> noTargetTab w" and "tabsUpdate E (navigations w) = LoadThenTimer"
    and "navListeners w = 0"
  shows "fst (navigate2 E u w) = Some ''Navigation timeout'' \<and>
         injections (snd (navigate2 E u w)) = Suc (injections w)"
  using assms
  by (auto simp: navigate2_def Let_def emit_def tabComplete2_def onUpdatedListener2_def
        executeInTab2_def noteTimeout_def noTargetTab_def tabId_def split: option.splits)

section \<open>Debounced page states\<close>













end
